theory Spec2Isabelle
  imports Main "HOL-Library.Word" "HOL-Library.Signed_Division"
begin

unbundle bit_operations_syntax

section \<open>Machine integers and byte order\<close>

text \<open>
  The program is C for a little-endian host (DPDK on x86-64).  Unsigned C integers are
  words of their width; \<open>+\<close>, \<open>-\<close> and \<open>*\<close> wrap.  A multi-byte struct field overlaid on
  packet memory is loaded and stored in host order, lowest byte first, and the program
  converts explicitly with the DPDK byte-swap helpers.
\<close>

type_synonym uint8_t = "8 word"
type_synonym uint16_t = "16 word"
type_synonym uint32_t = "32 word"
type_synonym uint64_t = "64 word"
type_synonym int64_t = "64 word"

text \<open>Host-order (little-endian) load and store of a 16-bit and a 32-bit field.\<close>

definition load16 :: "uint8_t \<Rightarrow> uint8_t \<Rightarrow> uint16_t" where
  "load16 b0 b1 = ucast b0 OR push_bit 8 (ucast b1)"

definition load32 :: "uint8_t \<Rightarrow> uint8_t \<Rightarrow> uint8_t \<Rightarrow> uint8_t \<Rightarrow> uint32_t" where
  "load32 b0 b1 b2 b3 =
     ucast b0 OR push_bit 8 (ucast b1) OR push_bit 16 (ucast b2) OR push_bit 24 (ucast b3)"

definition store16 :: "uint16_t \<Rightarrow> uint8_t list" where
  "store16 x = [ucast x, ucast (drop_bit 8 x)]"

definition store32 :: "uint32_t \<Rightarrow> uint8_t list" where
  "store32 x = [ucast x, ucast (drop_bit 8 x), ucast (drop_bit 16 x), ucast (drop_bit 24 x)]"

text \<open>\<open>rte_bswap16\<close> and \<open>rte_bswap32\<close> of DPDK, which \<open>rte_cpu_to_be_*\<close> and
  \<open>rte_be_to_cpu_*\<close> are on a little-endian host.\<close>

definition rte_bswap16 :: "uint16_t \<Rightarrow> uint16_t" where
  "rte_bswap16 x = push_bit 8 (x AND 0x00FF) OR drop_bit 8 (x AND 0xFF00)"

definition rte_bswap32 :: "uint32_t \<Rightarrow> uint32_t" where
  "rte_bswap32 x =
     push_bit 24 (x AND 0x000000FF) OR push_bit 8 (x AND 0x0000FF00) OR
     drop_bit 8 (x AND 0x00FF0000) OR drop_bit 24 (x AND 0xFF000000)"

definition rte_cpu_to_be_16 :: "uint16_t \<Rightarrow> uint16_t" where
  "rte_cpu_to_be_16 x = rte_bswap16 x"

definition rte_be_to_cpu_16 :: "uint16_t \<Rightarrow> uint16_t" where
  "rte_be_to_cpu_16 x = rte_bswap16 x"

definition rte_cpu_to_be_32 :: "uint32_t \<Rightarrow> uint32_t" where
  "rte_cpu_to_be_32 x = rte_bswap32 x"

definition rte_be_to_cpu_32 :: "uint32_t \<Rightarrow> uint32_t" where
  "rte_be_to_cpu_32 x = rte_bswap32 x"

text \<open>Division of two \<open>int64_t\<close> values as C defines it: the quotient is truncated
  towards zero.\<close>

definition div_s64 :: "int64_t \<Rightarrow> int64_t \<Rightarrow> int64_t" where
  "div_s64 a b = word_of_int (sint a sdiv sint b)"

section \<open>PTP types (ptp\_types.h)\<close>

datatype ptp_state_t =
    PTP_STATE_INIT
  | PTP_STATE_LISTENING
  | PTP_STATE_SYNC_RECEIVED
  | PTP_STATE_DELAY_REQ_SENT
  | PTP_STATE_SYNCED
  | PTP_STATE_ERROR

text \<open>The packed 80-bit timestamp.  The fields hold what a host-order load of the wire
  bytes gives, as the struct overlay in the C code does.\<close>

record ptp_timestamp_t =
  seconds_msb :: uint16_t
  seconds_lsb :: uint32_t
  nanoseconds :: uint32_t

record ptp_port_identity_t =
  clock_identity :: "uint8_t list"
  port_number :: uint16_t

record ptp_header_t =
  msg_type :: "4 word"
  transport :: "4 word"
  version :: uint8_t
  msg_length :: uint16_t
  domain_number :: uint8_t
  reserved1 :: uint8_t
  flags :: uint16_t
  correction :: int64_t
  reserved2 :: uint32_t
  source_port_id :: ptp_port_identity_t
  sequence_id :: uint16_t
  control :: uint8_t
  log_msg_interval :: uint8_t

record ptp_session_t =
  port_id :: uint16_t
  tx_port_id :: uint16_t
  vlan_id :: uint16_t
  rx_vlan_id :: uint16_t
  tx_vlan_id :: uint16_t
  tx_vl_idx :: uint16_t
  rx_vl_idx :: uint16_t
  session_idx :: uint8_t
  state :: ptp_state_t
  last_state_change :: uint64_t
  master_port_id :: ptp_port_identity_t
  master_domain :: uint8_t
  our_port_id :: ptp_port_identity_t
  sync_seq_id :: uint16_t
  delay_req_seq_id :: uint16_t
  last_delay_req_seq_id :: uint16_t
  t1_ns :: uint64_t
  t2_tsc :: uint64_t
  t2_realtime_ns :: uint64_t
  t3_tsc :: uint64_t
  t3_realtime_ns :: uint64_t
  t4_ns :: uint64_t
  offset_ns :: int64_t
  delay_ns :: int64_t
  tsc_hz :: uint64_t
  sync_rx_count :: uint64_t
  delay_req_tx_count :: uint64_t
  delay_resp_rx_count :: uint64_t
  sync_timeout_count :: uint64_t
  sync_errors :: uint64_t
  last_sync_tsc :: uint64_t
  last_delay_req_tsc :: uint64_t
  is_synced :: bool
  sync_count :: uint32_t

subsection \<open>Timestamp conversion\<close>

definition ptp_timestamp_to_ns :: "ptp_timestamp_t \<Rightarrow> uint64_t" where
  "ptp_timestamp_to_ns ts =
     (let seconds = (ucast (rte_be_to_cpu_32 (seconds_lsb ts)) :: uint64_t);
          nanos = rte_be_to_cpu_32 (nanoseconds ts)
      in seconds * 1000000000 + ucast nanos)"

definition ns_to_ptp_timestamp :: "uint64_t \<Rightarrow> ptp_timestamp_t" where
  "ns_to_ptp_timestamp ns =
     (let seconds = ns div 1000000000;
          nanos = (ucast (ns mod 1000000000) :: uint32_t)
      in \<lparr> seconds_msb = 0,
           seconds_lsb = rte_cpu_to_be_32 (ucast seconds),
           nanoseconds = rte_cpu_to_be_32 nanos \<rparr>)"

section \<open>Packet memory\<close>

text \<open>
  A packet buffer is memory read and written through byte offsets from the start of the
  packet data, as \<open>rte_pktmbuf_mtod\<close> exposes it.  The C code overlays packed structs on
  it and checks the data length only where the model does, so a read is of the buffer,
  whether or not it lies below \<open>data_len\<close>.
\<close>

type_synonym memory = "nat \<Rightarrow> uint8_t"

record rte_mbuf =
  data_len :: nat
  pkt :: memory
  l2_len :: nat
  ol_flags :: uint64_t
  vlan_tci :: uint16_t

definition mem_load16 :: "memory \<Rightarrow> nat \<Rightarrow> uint16_t" where
  "mem_load16 mem a = load16 (mem a) (mem (a + 1))"

definition mem_load32 :: "memory \<Rightarrow> nat \<Rightarrow> uint32_t" where
  "mem_load32 mem a = load32 (mem a) (mem (a + 1)) (mem (a + 2)) (mem (a + 3))"

definition mem_load64 :: "memory \<Rightarrow> nat \<Rightarrow> uint64_t" where
  "mem_load64 mem a =
     ucast (mem_load32 mem a) OR push_bit 32 (ucast (mem_load32 mem (a + 4)))"

text \<open>\<open>memcpy\<close> of a byte sequence to an offset, and \<open>memset\<close>.\<close>

definition mem_store :: "nat \<Rightarrow> uint8_t list \<Rightarrow> memory \<Rightarrow> memory" where
  "mem_store a bs mem = (\<lambda>i. if a \<le> i \<and> i < a + length bs then bs ! (i - a) else mem i)"

definition mem_set :: "nat \<Rightarrow> uint8_t \<Rightarrow> nat \<Rightarrow> memory \<Rightarrow> memory" where
  "mem_set a v n mem = (\<lambda>i. if a \<le> i \<and> i < a + n then v else mem i)"

text \<open>The packed structs of ptp\_types.h overlaid at an offset.\<close>

definition ptp_timestamp_at :: "memory \<Rightarrow> nat \<Rightarrow> ptp_timestamp_t" where
  "ptp_timestamp_at mem a =
     \<lparr> seconds_msb = mem_load16 mem a,
       seconds_lsb = mem_load32 mem (a + 2),
       nanoseconds = mem_load32 mem (a + 6) \<rparr>"

definition bytes_of_ptp_timestamp :: "ptp_timestamp_t \<Rightarrow> uint8_t list" where
  "bytes_of_ptp_timestamp ts =
     store16 (seconds_msb ts) @ store32 (seconds_lsb ts) @ store32 (nanoseconds ts)"

definition ptp_port_identity_at :: "memory \<Rightarrow> nat \<Rightarrow> ptp_port_identity_t" where
  "ptp_port_identity_at mem a =
     \<lparr> clock_identity = map mem [a ..< a + 8],
       port_number = mem_load16 mem (a + 8) \<rparr>"

definition bytes_of_ptp_port_identity :: "ptp_port_identity_t \<Rightarrow> uint8_t list" where
  "bytes_of_ptp_port_identity p = take 8 (clock_identity p) @ store16 (port_number p)"

definition ptp_header_at :: "memory \<Rightarrow> nat \<Rightarrow> ptp_header_t" where
  "ptp_header_at mem a =
     \<lparr> msg_type = ucast (mem a),
       transport = ucast (drop_bit 4 (mem a)),
       version = mem (a + 1),
       msg_length = mem_load16 mem (a + 2),
       domain_number = mem (a + 4),
       reserved1 = mem (a + 5),
       flags = mem_load16 mem (a + 6),
       correction = mem_load64 mem (a + 8),
       reserved2 = mem_load32 mem (a + 16),
       source_port_id = ptp_port_identity_at mem (a + 20),
       sequence_id = mem_load16 mem (a + 30),
       control = mem (a + 32),
       log_msg_interval = mem (a + 33) \<rparr>"

section \<open>PTP state machine (ptp\_state.c)\<close>

text \<open>
  The environment is passed in: \<open>hz\<close> is the TSC frequency \<open>rte_get_tsc_hz()\<close> that
  \<open>init_timeouts\<close> stores in the file-level \<open>tsc_hz\<close>, and every reading of a clock
  (\<open>get_realtime_ns()\<close>, \<open>rte_rdtsc()\<close>) is an argument of the function that takes it.
  Debug output (the \<open>printf\<close> calls) is no part of the session and is left out, but not
  the two calls of \<open>tsc_to_ns\<close> that \<open>ptp_calculate_offset_delay\<close> makes for it before it
  tests t4: they divide by the frequency, and the division traps when the frequency is
  zero.  A function that can trap returns an option, \<open>None\<close> for the trap.
  The casts between \<open>uint64_t\<close> and \<open>int64_t\<close> keep the bits, and signed subtraction and
  addition are two's complement, as the compiled code computes them.
\<close>

definition PTP_SYNC_TIMEOUT_SEC :: uint64_t where
  "PTP_SYNC_TIMEOUT_SEC = 3"

definition PTP_DELAY_RESP_TIMEOUT_SEC :: uint64_t where
  "PTP_DELAY_RESP_TIMEOUT_SEC = 2"

definition PTP_DELAY_REQ_INTERVAL_MS :: uint64_t where
  "PTP_DELAY_REQ_INTERVAL_MS = 100"

definition sync_timeout_cycles :: "uint64_t \<Rightarrow> uint64_t" where
  "sync_timeout_cycles hz = hz * PTP_SYNC_TIMEOUT_SEC"

definition delay_resp_timeout_cycles :: "uint64_t \<Rightarrow> uint64_t" where
  "delay_resp_timeout_cycles hz = hz * PTP_DELAY_RESP_TIMEOUT_SEC"

definition delay_req_interval_cycles :: "uint64_t \<Rightarrow> uint64_t" where
  "delay_req_interval_cycles hz = (hz * PTP_DELAY_REQ_INTERVAL_MS) div 1000"

definition ptp_handle_sync ::
  "ptp_session_t \<Rightarrow> ptp_header_t \<Rightarrow> ptp_timestamp_t \<Rightarrow> uint64_t \<Rightarrow> uint64_t \<Rightarrow> ptp_session_t"
where
  "ptp_handle_sync session header timestamp rx_tsc realtime_ns =
     (let session = session\<lparr> master_port_id := source_port_id header \<rparr>;
          session = session\<lparr> master_domain := domain_number header \<rparr>;
          session = session\<lparr> sync_seq_id := rte_be_to_cpu_16 (sequence_id header) \<rparr>;
          session = session\<lparr> last_sync_tsc := rx_tsc \<rparr>
      in if state session = PTP_STATE_LISTENING \<or>
            state session = PTP_STATE_SYNCED \<or>
            state session = PTP_STATE_ERROR
         then session\<lparr> t1_ns := ptp_timestamp_to_ns timestamp,
                        t2_tsc := rx_tsc,
                        t2_realtime_ns := realtime_ns,
                        state := PTP_STATE_SYNC_RECEIVED,
                        last_state_change := rx_tsc \<rparr>
         else session)"

text \<open>\<open>tsc_to_ns\<close> of ptp\_types.h: \<open>(tsc * 1000000000ULL) / tsc_hz\<close>.\<close>

definition tsc_to_ns :: "uint64_t \<Rightarrow> uint64_t \<Rightarrow> uint64_t option" where
  "tsc_to_ns tsc hz = (if hz = 0 then None else Some ((tsc * 1000000000) div hz))"

definition ptp_calculate_offset_delay ::
  "uint64_t \<Rightarrow> ptp_session_t \<Rightarrow> ptp_session_t option"
where
  "ptp_calculate_offset_delay hz session =
     (let t1 = t1_ns session;
          t2 = t2_realtime_ns session;
          t3 = t3_realtime_ns session;
          t4 = t4_ns session
      in case tsc_to_ns (t2_tsc session) hz of
           None \<Rightarrow> None
         | Some t2_tsc_ns \<Rightarrow>
             (case tsc_to_ns (t3_tsc session) hz of
                None \<Rightarrow> None
              | Some t3_tsc_ns \<Rightarrow>
                  (let session =
                         (if t4 = 0
                          then session\<lparr> delay_ns := 0, offset_ns := 0 \<rparr>
                          else
                            (let t2_minus_t1 = t2 - t1;
                                 t4_minus_t3 = t4 - t3
                             in session\<lparr> offset_ns := div_s64 (t2_minus_t1 - t4_minus_t3) 2,
                                          delay_ns := div_s64 (t2_minus_t1 + t4_minus_t3) 2 \<rparr>))
                   in Some (session\<lparr> tsc_hz := hz \<rparr>))))"

definition ptp_handle_delay_resp ::
  "uint64_t \<Rightarrow> ptp_session_t \<Rightarrow> ptp_header_t \<Rightarrow> ptp_timestamp_t \<Rightarrow> ptp_port_identity_t
     \<Rightarrow> uint64_t \<Rightarrow> ptp_session_t option"
where
  "ptp_handle_delay_resp hz session header timestamp req_port_id now_tsc =
     (let resp_seq_id = rte_be_to_cpu_16 (sequence_id header)
      in if resp_seq_id \<noteq> last_delay_req_seq_id session then Some session
         else
           (let session = session\<lparr> t4_ns := ptp_timestamp_to_ns timestamp \<rparr>
            in if state session = PTP_STATE_DELAY_REQ_SENT
               then
                 (case ptp_calculate_offset_delay hz session of
                    None \<Rightarrow> None
                  | Some session \<Rightarrow>
                      Some (session\<lparr> state := PTP_STATE_SYNCED,
                                     is_synced := True,
                                     sync_count := sync_count session + 1,
                                     last_state_change := now_tsc \<rparr>))
               else Some session))"


section \<open>PTP packets (ptp\_packet.c)\<close>

definition PTP_ETHERTYPE :: uint16_t where
  "PTP_ETHERTYPE = 0x88F7"

definition RTE_ETHER_TYPE_VLAN :: uint16_t where
  "RTE_ETHER_TYPE_VLAN = 0x8100"

definition PTP_MSG_SYNC :: int where "PTP_MSG_SYNC = 0x00"
definition PTP_MSG_DELAY_REQ :: int where "PTP_MSG_DELAY_REQ = 0x01"
definition PTP_MSG_FOLLOW_UP :: int where "PTP_MSG_FOLLOW_UP = 0x08"
definition PTP_MSG_DELAY_RESP :: int where "PTP_MSG_DELAY_RESP = 0x09"
definition PTP_MSG_ANNOUNCE :: int where "PTP_MSG_ANNOUNCE = 0x0B"

definition PTP_VERSION :: uint8_t where "PTP_VERSION = 2"
definition PTP_DEFAULT_DOMAIN :: uint8_t where "PTP_DEFAULT_DOMAIN = 10"
definition PTP_CTRL_DELAY_REQ :: uint8_t where "PTP_CTRL_DELAY_REQ = 0x01"

text \<open>\<open>PTP_LOG_DELAY_REQ_INT\<close> is \<open>-1\<close>, stored in an \<open>int8_t\<close>.\<close>

definition PTP_LOG_DELAY_REQ_INT :: uint8_t where "PTP_LOG_DELAY_REQ_INT = - 1"

definition PTP_MSG_LENGTH_PADDED :: nat where "PTP_MSG_LENGTH_PADDED = 106"

definition RTE_MBUF_F_TX_VLAN :: uint64_t where "RTE_MBUF_F_TX_VLAN = push_bit 57 1"

text \<open>Sizes of \<open>struct rte_ether_hdr\<close>, \<open>struct vlan_hdr\<close> and \<open>struct ptp_eth_frame\<close>.\<close>

definition sizeof_rte_ether_hdr :: nat where "sizeof_rte_ether_hdr = 14"
definition sizeof_vlan_hdr :: nat where "sizeof_vlan_hdr = 4"
definition sizeof_ptp_eth_frame :: nat where "sizeof_ptp_eth_frame = 18"

definition ptp_src_mac :: "uint8_t list" where
  "ptp_src_mac = [0x02, 0x00, 0x00, 0x00, 0x00, 0x20]"

text \<open>The outer EtherType, at offset 12 of the Ethernet header.\<close>

definition eth_ether_type :: "rte_mbuf \<Rightarrow> uint16_t" where
  "eth_ether_type mbuf = rte_be_to_cpu_16 (mem_load16 (pkt mbuf) 12)"

definition ptp_is_ptp_packet :: "rte_mbuf \<Rightarrow> bool" where
  "ptp_is_ptp_packet mbuf =
     (if data_len mbuf < sizeof_rte_ether_hdr then False
      else if eth_ether_type mbuf = PTP_ETHERTYPE then True
      else if eth_ether_type mbuf = RTE_ETHER_TYPE_VLAN then
        (if data_len mbuf < sizeof_ptp_eth_frame then False
         else rte_be_to_cpu_16 (mem_load16 (pkt mbuf) 16) = PTP_ETHERTYPE)
      else False)"

definition ptp_get_msg_type :: "rte_mbuf \<Rightarrow> int" where
  "ptp_get_msg_type mbuf =
     (if eth_ether_type mbuf = PTP_ETHERTYPE
      then uint (pkt mbuf sizeof_rte_ether_hdr AND 0x0F)
      else if eth_ether_type mbuf = RTE_ETHER_TYPE_VLAN
      then uint (pkt mbuf sizeof_ptp_eth_frame AND 0x0F)
      else - 1)"

definition ptp_get_vlan_id :: "rte_mbuf \<Rightarrow> uint16_t" where
  "ptp_get_vlan_id mbuf =
     (if eth_ether_type mbuf = RTE_ETHER_TYPE_VLAN
      then rte_be_to_cpu_16 (mem_load16 (pkt mbuf) 14) AND 0x0FFF
      else 0)"

text \<open>\<open>get_ptp_header\<close> returns a pointer into the packet or \<open>NULL\<close>: here the offset of
  the PTP header, or \<open>None\<close>.\<close>

definition get_ptp_header :: "rte_mbuf \<Rightarrow> nat option" where
  "get_ptp_header mbuf =
     (if eth_ether_type mbuf = PTP_ETHERTYPE then Some sizeof_rte_ether_hdr
      else if eth_ether_type mbuf = RTE_ETHER_TYPE_VLAN then Some sizeof_ptp_eth_frame
      else None)"

text \<open>
  \<open>ptp_packet_process\<close> returns its status code and the session as it leaves it, or
  \<open>None\<close> when the Delay\_Resp handler traps.  A
  session and a buffer are always given, so the test for null pointers has no branch.  The
  origin or receive timestamp follows the 34-byte header; the requesting port identity of
  a Delay\_Resp follows the timestamp.  \<open>realtime_ns\<close> is what \<open>get_realtime_ns()\<close> reads
  in \<open>ptp_handle_sync\<close> and \<open>now_tsc\<close> what \<open>rte_rdtsc()\<close> reads in
  \<open>ptp_handle_delay_resp\<close>.
\<close>

definition ptp_packet_process ::
  "uint64_t \<Rightarrow> ptp_session_t \<Rightarrow> rte_mbuf \<Rightarrow> uint64_t \<Rightarrow> uint64_t \<Rightarrow> uint64_t
     \<Rightarrow> (int \<times> ptp_session_t) option"
where
  "ptp_packet_process hz session mbuf rx_tsc realtime_ns now_tsc =
     (if \<not> ptp_is_ptp_packet mbuf then Some (- 1, session)
      else
        (let msg_type = ptp_get_msg_type mbuf
         in if msg_type < 0 then Some (- 1, session)
            else
              (let vlan_id = ptp_get_vlan_id mbuf
               in if vlan_id \<noteq> rx_vlan_id session then Some (- 2, session)
                  else
                    (case get_ptp_header mbuf of
                       None \<Rightarrow> Some (- 1, session)
                     | Some hdr \<Rightarrow>
                         if msg_type = PTP_MSG_SYNC then
                           (let session = ptp_handle_sync session
                                            (ptp_header_at (pkt mbuf) hdr)
                                            (ptp_timestamp_at (pkt mbuf) (hdr + 34))
                                            rx_tsc realtime_ns
                            in Some (0, session\<lparr> sync_rx_count :=
                                                    sync_rx_count session + 1 \<rparr>))
                         else if msg_type = PTP_MSG_DELAY_RESP then
                           (case ptp_handle_delay_resp hz session
                                   (ptp_header_at (pkt mbuf) hdr)
                                   (ptp_timestamp_at (pkt mbuf) (hdr + 34))
                                   (ptp_port_identity_at (pkt mbuf) (hdr + 44))
                                   now_tsc of
                              None \<Rightarrow> None
                            | Some session \<Rightarrow>
                                Some (0, session\<lparr> delay_resp_rx_count :=
                                                      delay_resp_rx_count session + 1 \<rparr>))
                         else if msg_type = PTP_MSG_FOLLOW_UP then Some (0, session)
                         else if msg_type = PTP_MSG_ANNOUNCE then Some (0, session)
                         else Some (- 4, session)))))"

subsection \<open>Building and sending a Delay\_Req\<close>

text \<open>
  The frame is written into the data area that \<open>rte_pktmbuf_append\<close> returns, whose
  previous contents are \<open>mem0\<close>.  The stores are in the order of the C code: Ethernet
  header, VLAN header, \<open>memset\<close> of the 106-byte PTP payload, the header fields, the
  \<open>memcpy\<close> of the port identity and the \<open>memset\<close> of the origin timestamp.  Byte 0 of
  the PTP header holds the bit-fields \<open>msg_type\<close> (low nibble) and \<open>transport\<close>.
\<close>

definition build_delay_req :: "ptp_session_t \<Rightarrow> memory \<Rightarrow> memory" where
  "build_delay_req session mem0 =
     (let eth = 0;
          mem = mem_store eth
                  [0x03, 0x00, 0x00, 0x00,
                   ucast (drop_bit 8 (tx_vl_idx session) AND 0xFF),
                   ucast (tx_vl_idx session AND 0xFF)] mem0;
          mem = mem_store (eth + 6) ptp_src_mac mem;
          mem = mem_store (eth + 12) (store16 (rte_cpu_to_be_16 RTE_ETHER_TYPE_VLAN)) mem;
          vlan = eth + sizeof_rte_ether_hdr;
          mem = mem_store vlan (store16 (rte_cpu_to_be_16 (tx_vlan_id session AND 0x0FFF))) mem;
          mem = mem_store (vlan + 2) (store16 (rte_cpu_to_be_16 PTP_ETHERTYPE)) mem;
          ptp_start = vlan + sizeof_vlan_hdr;
          mem = mem_set ptp_start 0 PTP_MSG_LENGTH_PADDED mem;
          mem = mem_store ptp_start
                  [(mem ptp_start AND 0xF0) OR (word_of_int PTP_MSG_DELAY_REQ AND 0x0F)] mem;
          mem = mem_store ptp_start [mem ptp_start AND 0x0F] mem;
          mem = mem_store (ptp_start + 1) [PTP_VERSION] mem;
          mem = mem_store (ptp_start + 2)
                  (store16 (rte_cpu_to_be_16 (of_nat PTP_MSG_LENGTH_PADDED))) mem;
          mem = mem_store (ptp_start + 4) [PTP_DEFAULT_DOMAIN] mem;
          mem = mem_store (ptp_start + 6) (store16 (rte_cpu_to_be_16 0x0102)) mem;
          mem = mem_set (ptp_start + 8) 0 8 mem;
          mem = mem_store (ptp_start + 30)
                  (store16 (rte_cpu_to_be_16 (delay_req_seq_id session))) mem;
          mem = mem_store (ptp_start + 32) [PTP_CTRL_DELAY_REQ] mem;
          mem = mem_store (ptp_start + 33) [PTP_LOG_DELAY_REQ_INT] mem;
          mem = mem_store (ptp_start + 20)
                  (bytes_of_ptp_port_identity (our_port_id session)) mem;
          mem = mem_set (ptp_start + 34) 0 10 mem
      in mem)"

text \<open>
  What the calls into DPDK and the clock return during one \<open>ptp_send_delay_req\<close>:
  whether the port has a transmit pool, the buffer \<open>rte_pktmbuf_alloc\<close> returns (its
  data area, or \<open>None\<close> for \<open>NULL\<close>), whether \<open>rte_pktmbuf_append\<close> finds room, the two
  TSC readings, the count \<open>rte_eth_tx_burst\<close> returns and the wall clock read after it.
\<close>

record tx_env =
  tx_mbuf_pool :: bool
  pktmbuf_alloc :: "memory option"
  pktmbuf_append :: bool
  tsc_before :: uint64_t
  nb_tx :: uint16_t
  tsc_after :: uint64_t
  tx_realtime_ns :: uint64_t

text \<open>The result: the status code, the output parameter \<open>*tx_tsc\<close> when it is written,
  the frame when the driver took it, and the session.\<close>

record delay_req_result =
  ret :: int
  tx_tsc :: "uint64_t option"
  tx_frame :: "rte_mbuf option"
  session_after :: ptp_session_t

definition ptp_send_delay_req :: "tx_env \<Rightarrow> ptp_session_t \<Rightarrow> delay_req_result" where
  "ptp_send_delay_req env session =
     (if \<not> tx_mbuf_pool env
      then \<lparr> ret = - 1, tx_tsc = None, tx_frame = None, session_after = session \<rparr>
      else
        (case pktmbuf_alloc env of
           None \<Rightarrow> \<lparr> ret = - 2, tx_tsc = None, tx_frame = None, session_after = session \<rparr>
         | Some mem0 \<Rightarrow>
             if \<not> pktmbuf_append env
             then \<lparr> ret = - 3, tx_tsc = None, tx_frame = None, session_after = session \<rparr>
             else
               (let pkt_size = sizeof_rte_ether_hdr + sizeof_vlan_hdr + PTP_MSG_LENGTH_PADDED;
                    mbuf = \<lparr> data_len = pkt_size,
                             pkt = build_delay_req session mem0,
                             l2_len = sizeof_rte_ether_hdr + sizeof_vlan_hdr,
                             ol_flags = RTE_MBUF_F_TX_VLAN,
                             vlan_tci = tx_vlan_id session \<rparr>
                in if nb_tx env \<noteq> 1
                   then \<lparr> ret = - 4, tx_tsc = None, tx_frame = None, session_after = session \<rparr>
                   else
                     (let tx = (tsc_before env + tsc_after env) div 2;
                          session = session\<lparr> t3_tsc := tx \<rparr>;
                          session = session\<lparr> t3_realtime_ns := tx_realtime_ns env \<rparr>;
                          session = session\<lparr> last_delay_req_seq_id := delay_req_seq_id session \<rparr>;
                          session = session\<lparr> delay_req_seq_id := delay_req_seq_id session + 1 \<rparr>;
                          session = session\<lparr> delay_req_tx_count := delay_req_tx_count session + 1 \<rparr>;
                          session = session\<lparr> last_delay_req_tsc := tx \<rparr>
                      in \<lparr> ret = 0, tx_tsc = Some tx, tx_frame = Some mbuf,
                           session_after = session \<rparr>))))"

definition ptp_init_port_identity :: "ptp_session_t \<Rightarrow> uint16_t \<Rightarrow> ptp_session_t" where
  "ptp_init_port_identity session port =
     session\<lparr> our_port_id :=
       \<lparr> clock_identity = [0x2C, 0x1A, 0x00, 0x00, 0x00, 0x00, 0x00, 0x00],
         port_number = rte_cpu_to_be_16 0 \<rparr> \<rparr>"

subsection \<open>The periodic tick and session set-up (ptp\_state.c)\<close>

text \<open>The tick returns the session and the Delay\_Req frame it transmitted, if any.\<close>

definition ptp_state_machine_tick ::
  "uint64_t \<Rightarrow> tx_env \<Rightarrow> ptp_session_t \<Rightarrow> uint64_t \<Rightarrow> ptp_session_t \<times> rte_mbuf option"
where
  "ptp_state_machine_tick hz env session current_tsc =
     (case state session of
        PTP_STATE_INIT \<Rightarrow>
          (session\<lparr> state := PTP_STATE_LISTENING, last_state_change := current_tsc \<rparr>, None)
      | PTP_STATE_LISTENING \<Rightarrow>
          (if last_sync_tsc session > 0 \<and>
              current_tsc - last_sync_tsc session > sync_timeout_cycles hz
           then (session\<lparr> sync_timeout_count := sync_timeout_count session + 1 \<rparr>, None)
           else (session, None))
      | PTP_STATE_SYNC_RECEIVED \<Rightarrow>
          (if current_tsc - last_state_change session \<ge> delay_req_interval_cycles hz
           then
             (let r = ptp_send_delay_req env session;
                  session = session_after r
              in if ret r = 0
                 then (session\<lparr> state := PTP_STATE_DELAY_REQ_SENT,
                                 last_state_change := current_tsc \<rparr>, tx_frame r)
                 else (session\<lparr> state := PTP_STATE_ERROR,
                                 sync_errors := sync_errors session + 1 \<rparr>, tx_frame r))
           else (session, None))
      | PTP_STATE_DELAY_REQ_SENT \<Rightarrow>
          (if current_tsc - last_state_change session > delay_resp_timeout_cycles hz
           then (session\<lparr> sync_timeout_count := sync_timeout_count session + 1,
                           state := PTP_STATE_LISTENING,
                           last_state_change := current_tsc \<rparr>, None)
           else (session, None))
      | PTP_STATE_SYNCED \<Rightarrow>
          (if current_tsc - last_sync_tsc session > sync_timeout_cycles hz
           then (session\<lparr> sync_timeout_count := sync_timeout_count session + 1,
                           is_synced := False,
                           state := PTP_STATE_LISTENING,
                           last_state_change := current_tsc \<rparr>, None)
           else (session, None))
      | PTP_STATE_ERROR \<Rightarrow>
          (if current_tsc - last_state_change session > sync_timeout_cycles hz
           then (session\<lparr> state := PTP_STATE_LISTENING,
                           last_state_change := current_tsc \<rparr>, None)
           else (session, None)))"

text \<open>\<open>memset(session, 0, sizeof(ptp_session_t))\<close>.\<close>

definition zero_port_identity :: ptp_port_identity_t where
  "zero_port_identity = \<lparr> clock_identity = replicate 8 0, port_number = 0 \<rparr>"

definition zero_session :: ptp_session_t where
  "zero_session =
     \<lparr> port_id = 0, tx_port_id = 0, vlan_id = 0, rx_vlan_id = 0, tx_vlan_id = 0,
       tx_vl_idx = 0, rx_vl_idx = 0, session_idx = 0,
       state = PTP_STATE_INIT, last_state_change = 0,
       master_port_id = zero_port_identity, master_domain = 0,
       our_port_id = zero_port_identity,
       sync_seq_id = 0, delay_req_seq_id = 0, last_delay_req_seq_id = 0,
       t1_ns = 0, t2_tsc = 0, t2_realtime_ns = 0, t3_tsc = 0, t3_realtime_ns = 0, t4_ns = 0,
       offset_ns = 0, delay_ns = 0, tsc_hz = 0,
       sync_rx_count = 0, delay_req_tx_count = 0, delay_resp_rx_count = 0,
       sync_timeout_count = 0, sync_errors = 0,
       last_sync_tsc = 0, last_delay_req_tsc = 0,
       is_synced = False, sync_count = 0 \<rparr>"

definition ptp_session_init ::
  "uint64_t \<Rightarrow> uint16_t \<Rightarrow> uint16_t \<Rightarrow> uint8_t \<Rightarrow> uint16_t \<Rightarrow> uint16_t \<Rightarrow> uint16_t
     \<Rightarrow> ptp_session_t"
where
  "ptp_session_init hz rx_port_id' tx_port_id' session_idx' rx_vlan_id' tx_vlan_id' tx_vl_idx' =
     (let session = zero_session;
          session = session\<lparr> port_id := rx_port_id' \<rparr>;
          session = session\<lparr> tx_port_id := tx_port_id' \<rparr>;
          session = session\<lparr> session_idx := session_idx' \<rparr>;
          session = session\<lparr> rx_vlan_id := rx_vlan_id' \<rparr>;
          session = session\<lparr> tx_vlan_id := tx_vlan_id' \<rparr>;
          session = session\<lparr> tx_vl_idx := tx_vl_idx' \<rparr>;
          session = session\<lparr> rx_vl_idx := 0 \<rparr>;
          session = session\<lparr> vlan_id := rx_vlan_id' \<rparr>;
          session = session\<lparr> state := PTP_STATE_INIT \<rparr>;
          session = session\<lparr> is_synced := False \<rparr>;
          session = session\<lparr> tsc_hz := hz \<rparr>
      in ptp_init_port_identity session rx_port_id')"

subsection \<open>A session driven by its worker\<close>

text \<open>
  The worker of a port feeds a session the packets received on its VLAN
  (\<open>ptp_packet_process\<close>) and ticks it (\<open>ptp_state_machine_tick\<close>).  An event carries
  what the environment supplies to the call.  \<open>session_step\<close> returns the session after
  the event and the Delay\_Req frames transmitted during it, or \<open>None\<close> when the call
  traps.  \<open>session_run\<close> returns the session after the events and the frames transmitted,
  in order; a trap ends the process, so the run stops there with the session as it was
  and the frames sent until then.
\<close>

datatype session_event =
    Rx rte_mbuf uint64_t uint64_t uint64_t
  | Tick uint64_t tx_env

fun session_step ::
  "uint64_t \<Rightarrow> ptp_session_t \<Rightarrow> session_event \<Rightarrow> (ptp_session_t \<times> rte_mbuf list) option"
where
  "session_step hz session (Rx mbuf rx_tsc realtime_ns now_tsc) =
     (case ptp_packet_process hz session mbuf rx_tsc realtime_ns now_tsc of
        None \<Rightarrow> None
      | Some (status, session') \<Rightarrow> Some (session', []))"
| "session_step hz session (Tick current_tsc env) =
     (case ptp_state_machine_tick hz env session current_tsc of
        (session', None) \<Rightarrow> Some (session', [])
      | (session', Some frame) \<Rightarrow> Some (session', [frame]))"

fun session_run ::
  "uint64_t \<Rightarrow> ptp_session_t \<Rightarrow> session_event list \<Rightarrow> ptp_session_t \<times> rte_mbuf list"
where
  "session_run hz session [] = (session, [])"
| "session_run hz session (ev # evs) =
     (case session_step hz session ev of
        None \<Rightarrow> (session, [])
      | Some (session', sent) \<Rightarrow>
          (case session_run hz session' evs of
             (session'', sent') \<Rightarrow> (session'', sent @ sent')))"

text \<open>The sequence id a transmitted frame carries, read as a receiver parses it.\<close>

definition frame_sequence_id :: "rte_mbuf \<Rightarrow> uint16_t" where
  "frame_sequence_id mbuf =
     rte_be_to_cpu_16 (sequence_id (ptp_header_at (pkt mbuf) sizeof_ptp_eth_frame))"

section \<open>Health monitor types (health\_types.h)\<close>

definition HEALTH_ETH_HEADER_SIZE :: nat where "HEALTH_ETH_HEADER_SIZE = 14"
definition HEALTH_IP_HEADER_SIZE :: nat where "HEALTH_IP_HEADER_SIZE = 20"
definition HEALTH_UDP_HEADER_SIZE :: nat where "HEALTH_UDP_HEADER_SIZE = 8"

definition HEALTH_UDP_PAYLOAD_OFFSET :: nat where
  "HEALTH_UDP_PAYLOAD_OFFSET =
     HEALTH_ETH_HEADER_SIZE + HEALTH_IP_HEADER_SIZE + HEALTH_UDP_HEADER_SIZE"

definition HEALTH_DEVICE_HEADER_SIZE :: nat where "HEALTH_DEVICE_HEADER_SIZE = 111"
definition HEALTH_MINI_HEADER_SIZE :: nat where "HEALTH_MINI_HEADER_SIZE = 7"
definition HEALTH_PORT_DATA_SIZE :: nat where "HEALTH_PORT_DATA_SIZE = 129"
definition HEALTH_MAX_PORTS :: nat where "HEALTH_MAX_PORTS = 35"

definition HEALTH_PKT_SIZE_WITH_HEADER :: nat where "HEALTH_PKT_SIZE_WITH_HEADER = 1187"
definition HEALTH_PKT_SIZE_8_PORTS :: nat where "HEALTH_PKT_SIZE_8_PORTS = 1083"
definition HEALTH_PKT_SIZE_3_PORTS :: nat where "HEALTH_PKT_SIZE_3_PORTS = 438"

definition STATUS_ENABLE_MANAGER :: uint8_t where "STATUS_ENABLE_MANAGER = 0x01"
definition STATUS_ENABLE_ASSISTANT :: uint8_t where "STATUS_ENABLE_ASSISTANT = 0x03"

definition HEALTH_MONITOR_EXPECTED_RESPONSES :: uint8_t where
  "HEALTH_MONITOR_EXPECTED_RESPONSES = 6"

definition DEV_OFF_STATUS_ENABLE :: nat where "DEV_OFF_STATUS_ENABLE = 6"
definition MCU_OFF_FO_TRANS_TEMP :: nat where "MCU_OFF_FO_TRANS_TEMP = 48"

record health_device_info =
  device_id :: uint16_t
  operation_type :: uint8_t
  config_type :: uint8_t
  frame_length :: uint16_t
  status_enable :: uint8_t
  status_addr :: uint16_t
  tx_total_count :: uint64_t
  rx_total_count :: uint64_t
  tx_err_total_count :: uint64_t
  rx_err_total_count :: uint64_t
  heartbeat :: uint8_t
  device_id2 :: uint16_t
  port_count :: uint8_t
  token_bucket_status :: uint8_t
  sw_mode :: uint8_t
  vendor_id :: uint8_t
  auto_mac_update :: uint8_t
  upstream_mode :: uint8_t
  sw_ip_major :: uint8_t
  sw_ip_minor :: uint8_t
  sw_ip_patch :: uint8_t
  es_ip_major :: uint8_t
  es_ip_minor :: uint8_t
  es_ip_patch :: uint8_t
  sw_input_fifo_size :: uint16_t
  pkt_pro_fifo_size :: uint16_t
  sw_output_fifo_size :: uint16_t
  hp_fifo_size :: uint16_t
  lp_fifo_size :: uint16_t
  be_fifo_size :: uint16_t
  tod_ns :: uint64_t
  tod_sec :: uint64_t
  eth_wrong_dev_cnt :: uint64_t
  eth_wrong_op_cnt :: uint64_t
  eth_wrong_type_cnt :: uint64_t
  fpga_voltage :: uint16_t
  fpga_temp :: uint16_t
  config_id :: uint16_t

record health_port_info =
  port_number :: uint16_t
  bit_status :: uint8_t
  crc_err_count :: uint64_t
  ali_err_count :: uint64_t
  len_exc_64 :: uint64_t
  len_exc_1518 :: uint64_t
  min_vl_frame_err :: uint64_t
  max_vl_frame_err :: uint64_t
  inp_port_terr_cnt :: uint64_t
  traffic_policy_drop :: uint64_t
  be_count :: uint64_t
  tx_count :: uint64_t
  rx_count :: uint64_t
  vl_source_err :: uint64_t
  max_delay_err :: uint64_t
  queue_overflow :: uint64_t
  vlid_drop_count :: uint64_t
  undef_mac_count :: uint64_t
  hp_queue_overflow :: uint64_t
  lp_queue_overflow :: uint64_t
  be_queue_overflow :: uint64_t
  max_delay_param :: uint64_t
  port_speed :: uint64_t
  valid :: bool

record health_mcu_info =
  device_id :: uint16_t
  operation_type :: uint8_t
  config_type :: uint8_t
  frame_length :: uint16_t
  status_enable :: uint8_t
  fw_major :: uint8_t
  fw_minor :: uint8_t
  comp_stat :: uint8_t
  comp_status :: uint16_t
  volt_12v :: uint16_t
  curr_12v :: uint16_t
  volt_3v3 :: uint16_t
  curr_3v3 :: uint16_t
  volt_1v8 :: uint16_t
  curr_1v8 :: uint16_t
  volt_3v3_fo :: uint16_t
  curr_3v3_fo :: uint16_t
  curr_1v3 :: uint16_t
  volt_1v3 :: uint16_t
  curr_1v0_mgr :: uint16_t
  volt_1v0_mgr :: uint16_t
  volt_1v0_ast :: uint16_t
  curr_1v0_ast :: uint16_t
  vdiv_3v3 :: uint16_t
  vdiv_3v3_fo :: uint16_t
  vdiv_12v :: uint16_t
  board_temp :: uint16_t
  fo_trans_temp :: uint16_t
  valid :: bool

record health_fpga_data =
  device :: health_device_info
  ports :: "health_port_info list"
  packets_received :: uint8_t
  device_info_valid :: bool
  port_count_received :: uint8_t

record health_cycle_data =
  assistant :: health_fpga_data
  manager :: health_fpga_data
  mcu :: health_mcu_info
  total_responses_received :: uint8_t
  last_fpga_type :: uint8_t

section \<open>Health monitor response parsing (health\_monitor.c)\<close>

definition parse_2byte_be :: "memory \<Rightarrow> nat \<Rightarrow> uint16_t" where
  "parse_2byte_be data a = push_bit 8 (ucast (data a)) OR ucast (data (a + 1))"

definition parse_5byte_be :: "memory \<Rightarrow> nat \<Rightarrow> uint64_t" where
  "parse_5byte_be data a =
     push_bit 32 (ucast (data a)) OR push_bit 24 (ucast (data (a + 1))) OR
     push_bit 16 (ucast (data (a + 2))) OR push_bit 8 (ucast (data (a + 3))) OR
     ucast (data (a + 4))"

definition parse_6byte_be :: "memory \<Rightarrow> nat \<Rightarrow> uint64_t" where
  "parse_6byte_be data a =
     push_bit 40 (ucast (data a)) OR push_bit 32 (ucast (data (a + 1))) OR
     push_bit 24 (ucast (data (a + 2))) OR push_bit 16 (ucast (data (a + 3))) OR
     push_bit 8 (ucast (data (a + 4))) OR ucast (data (a + 5))"

text \<open>\<open>parse_device_header\<close> assigns every field of the device record; the offsets are
  the \<open>DEV_OFF_*\<close> constants.\<close>

definition parse_device_header :: "memory \<Rightarrow> nat \<Rightarrow> health_device_info" where
  "parse_device_header data udp_payload =
     \<lparr> health_device_info.device_id = parse_2byte_be data (udp_payload + 0),
       health_device_info.operation_type = data (udp_payload + 2),
       health_device_info.config_type = data (udp_payload + 3),
       health_device_info.frame_length = parse_2byte_be data (udp_payload + 4),
       health_device_info.status_enable = data (udp_payload + DEV_OFF_STATUS_ENABLE),
       status_addr = parse_2byte_be data (udp_payload + 7),
       tx_total_count = parse_6byte_be data (udp_payload + 9),
       rx_total_count = parse_6byte_be data (udp_payload + 15),
       tx_err_total_count = parse_6byte_be data (udp_payload + 21),
       rx_err_total_count = parse_6byte_be data (udp_payload + 27),
       heartbeat = data (udp_payload + 33),
       device_id2 = parse_2byte_be data (udp_payload + 34),
       port_count = data (udp_payload + 36),
       token_bucket_status = data (udp_payload + 37),
       sw_mode = data (udp_payload + 38),
       vendor_id = data (udp_payload + 42),
       auto_mac_update = data (udp_payload + 43),
       upstream_mode = data (udp_payload + 44),
       sw_ip_major = data (udp_payload + 45 + 3),
       sw_ip_minor = data (udp_payload + 45 + 4),
       sw_ip_patch = data (udp_payload + 45 + 5),
       es_ip_major = data (udp_payload + 51 + 3),
       es_ip_minor = data (udp_payload + 51 + 4),
       es_ip_patch = data (udp_payload + 51 + 5),
       sw_input_fifo_size = parse_2byte_be data (udp_payload + 57),
       pkt_pro_fifo_size = parse_2byte_be data (udp_payload + 59),
       sw_output_fifo_size = parse_2byte_be data (udp_payload + 61),
       hp_fifo_size = parse_2byte_be data (udp_payload + 63),
       lp_fifo_size = parse_2byte_be data (udp_payload + 65),
       be_fifo_size = parse_2byte_be data (udp_payload + 67),
       tod_ns = parse_5byte_be data (udp_payload + 70),
       tod_sec = parse_5byte_be data (udp_payload + 76),
       eth_wrong_dev_cnt = parse_6byte_be data (udp_payload + 81),
       eth_wrong_op_cnt = parse_6byte_be data (udp_payload + 87),
       eth_wrong_type_cnt = parse_6byte_be data (udp_payload + 93),
       fpga_voltage = parse_2byte_be data (udp_payload + 101),
       fpga_temp = parse_2byte_be data (udp_payload + 103),
       config_id = parse_2byte_be data (udp_payload + 105) \<rparr>"

text \<open>\<open>parse_port_data\<close> fills a zeroed \<open>temp_port\<close>: every field is assigned; the
  offsets are the \<open>PORT_OFF_*\<close> constants.\<close>

definition parse_port_data :: "memory \<Rightarrow> nat \<Rightarrow> health_port_info" where
  "parse_port_data data port_data =
     \<lparr> port_number = parse_2byte_be data (port_data + 0),
       bit_status = data (port_data + 2),
       crc_err_count = parse_6byte_be data (port_data + 3),
       ali_err_count = parse_6byte_be data (port_data + 9),
       len_exc_64 = parse_6byte_be data (port_data + 15),
       len_exc_1518 = parse_6byte_be data (port_data + 21),
       min_vl_frame_err = parse_6byte_be data (port_data + 27),
       max_vl_frame_err = parse_6byte_be data (port_data + 33),
       inp_port_terr_cnt = parse_6byte_be data (port_data + 39),
       traffic_policy_drop = parse_6byte_be data (port_data + 45),
       be_count = parse_6byte_be data (port_data + 51),
       tx_count = parse_6byte_be data (port_data + 57),
       rx_count = parse_6byte_be data (port_data + 63),
       vl_source_err = parse_6byte_be data (port_data + 69),
       max_delay_err = parse_6byte_be data (port_data + 75),
       queue_overflow = parse_6byte_be data (port_data + 81),
       vlid_drop_count = parse_6byte_be data (port_data + 87),
       undef_mac_count = parse_6byte_be data (port_data + 93),
       hp_queue_overflow = parse_6byte_be data (port_data + 99),
       lp_queue_overflow = parse_6byte_be data (port_data + 105),
       be_queue_overflow = parse_6byte_be data (port_data + 111),
       max_delay_param = parse_6byte_be data (port_data + 117),
       port_speed = parse_6byte_be data (port_data + 123),
       health_port_info.valid = True \<rparr>"

text \<open>\<open>parse_mcu_data\<close> assigns every field of the MCU record but \<open>valid\<close>; the offsets
  are the \<open>MCU_OFF_*\<close> constants.\<close>

definition parse_mcu_data :: "memory \<Rightarrow> nat \<Rightarrow> health_mcu_info \<Rightarrow> health_mcu_info" where
  "parse_mcu_data data udp_payload mcu0 =
     \<lparr> health_mcu_info.device_id = parse_2byte_be data (udp_payload + 0),
       health_mcu_info.operation_type = data (udp_payload + 2),
       health_mcu_info.config_type = data (udp_payload + 3),
       health_mcu_info.frame_length = parse_2byte_be data (udp_payload + 4),
       health_mcu_info.status_enable = data (udp_payload + 6),
       fw_major = data (udp_payload + 7),
       fw_minor = data (udp_payload + 7 + 1),
       comp_stat = data (udp_payload + 9),
       comp_status = parse_2byte_be data (udp_payload + 10),
       volt_12v = parse_2byte_be data (udp_payload + 12),
       curr_12v = parse_2byte_be data (udp_payload + 14),
       volt_3v3 = parse_2byte_be data (udp_payload + 16),
       curr_3v3 = parse_2byte_be data (udp_payload + 18),
       volt_1v8 = parse_2byte_be data (udp_payload + 20),
       curr_1v8 = parse_2byte_be data (udp_payload + 22),
       volt_3v3_fo = parse_2byte_be data (udp_payload + 24),
       curr_3v3_fo = parse_2byte_be data (udp_payload + 26),
       curr_1v3 = parse_2byte_be data (udp_payload + 28),
       volt_1v3 = parse_2byte_be data (udp_payload + 30),
       curr_1v0_mgr = parse_2byte_be data (udp_payload + 32),
       volt_1v0_mgr = parse_2byte_be data (udp_payload + 34),
       volt_1v0_ast = parse_2byte_be data (udp_payload + 36),
       curr_1v0_ast = parse_2byte_be data (udp_payload + 38),
       vdiv_3v3 = parse_2byte_be data (udp_payload + 40),
       vdiv_3v3_fo = parse_2byte_be data (udp_payload + 42),
       vdiv_12v = parse_2byte_be data (udp_payload + 44),
       board_temp = parse_2byte_be data (udp_payload + 46),
       fo_trans_temp = parse_2byte_be data (udp_payload + MCU_OFF_FO_TRANS_TEMP),
       health_mcu_info.valid = health_mcu_info.valid mcu0 \<rparr>"

text \<open>
  The port loop of \<open>health_parse_response\<close>: \<open>n\<close> port blocks remain, the next at
  \<open>port_ptr\<close>.  A block whose port number is below \<open>HEALTH_MAX_PORTS\<close> is stored in the
  slot of that number.
\<close>

fun parse_ports :: "memory \<Rightarrow> nat \<Rightarrow> nat \<Rightarrow> health_fpga_data \<Rightarrow> health_fpga_data" where
  "parse_ports data port_ptr 0 target_fpga = target_fpga"
| "parse_ports data port_ptr (Suc n) target_fpga =
     (let temp_port = parse_port_data data port_ptr;
          pnum = port_number temp_port;
          target_fpga =
            (if unat pnum < HEALTH_MAX_PORTS
             then target_fpga\<lparr> ports := (ports target_fpga)[unat pnum := temp_port],
                                port_count_received := port_count_received target_fpga + 1 \<rparr>
             else target_fpga)
      in parse_ports data (port_ptr + HEALTH_PORT_DATA_SIZE) n target_fpga)"

text \<open>\<open>target_fpga\<close> points at one of the two accumulators of the cycle.\<close>

datatype fpga_target = Target_Assistant | Target_Manager

fun get_fpga :: "fpga_target \<Rightarrow> health_cycle_data \<Rightarrow> health_fpga_data" where
  "get_fpga Target_Assistant cycle = assistant cycle"
| "get_fpga Target_Manager cycle = manager cycle"

fun set_fpga :: "fpga_target \<Rightarrow> health_fpga_data \<Rightarrow> health_cycle_data \<Rightarrow> health_cycle_data" where
  "set_fpga Target_Assistant f cycle = cycle\<lparr> assistant := f \<rparr>"
| "set_fpga Target_Manager f cycle = cycle\<lparr> manager := f \<rparr>"

text \<open>The part of \<open>health_parse_response\<close> after the target is chosen: the device
  header, the port blocks and the two counters.\<close>

definition parse_fpga_packet ::
  "memory \<Rightarrow> bool \<Rightarrow> nat \<Rightarrow> nat \<Rightarrow> fpga_target \<Rightarrow> health_cycle_data \<Rightarrow> health_cycle_data"
where
  "parse_fpga_packet packet has_device_header port_count_in_packet port_data_offset target cycle =
     (let udp_payload = HEALTH_UDP_PAYLOAD_OFFSET;
          target_fpga = get_fpga target cycle;
          target_fpga =
            (if has_device_header \<and> \<not> device_info_valid target_fpga
             then target_fpga\<lparr> device := parse_device_header packet udp_payload,
                                device_info_valid := True \<rparr>
             else target_fpga);
          target_fpga = parse_ports packet (udp_payload + port_data_offset)
                          port_count_in_packet target_fpga;
          target_fpga = target_fpga\<lparr> packets_received := packets_received target_fpga + 1 \<rparr>;
          cycle = set_fpga target target_fpga cycle
      in cycle\<lparr> total_responses_received := total_responses_received cycle + 1 \<rparr>)"

definition health_parse_response :: "memory \<Rightarrow> nat \<Rightarrow> health_cycle_data \<Rightarrow> health_cycle_data" where
  "health_parse_response packet len cycle =
     (let udp_payload = HEALTH_UDP_PAYLOAD_OFFSET
      in if len = HEALTH_PKT_SIZE_WITH_HEADER then
           (let status_enable = packet (udp_payload + DEV_OFF_STATUS_ENABLE)
            in if status_enable = STATUS_ENABLE_ASSISTANT then
                 parse_fpga_packet packet True 8 HEALTH_DEVICE_HEADER_SIZE Target_Assistant
                   (cycle\<lparr> last_fpga_type := STATUS_ENABLE_ASSISTANT \<rparr>)
               else if status_enable = STATUS_ENABLE_MANAGER then
                 parse_fpga_packet packet True 8 HEALTH_DEVICE_HEADER_SIZE Target_Manager
                   (cycle\<lparr> last_fpga_type := STATUS_ENABLE_MANAGER \<rparr>)
               else cycle)
         else if len = HEALTH_PKT_SIZE_8_PORTS \<or> len = HEALTH_PKT_SIZE_3_PORTS then
           (let port_count_in_packet = (if len = HEALTH_PKT_SIZE_8_PORTS then 8 else 3)
            in if last_fpga_type cycle = STATUS_ENABLE_ASSISTANT then
                 parse_fpga_packet packet False port_count_in_packet HEALTH_MINI_HEADER_SIZE
                   Target_Assistant cycle
               else if last_fpga_type cycle = STATUS_ENABLE_MANAGER then
                 parse_fpga_packet packet False port_count_in_packet HEALTH_MINI_HEADER_SIZE
                   Target_Manager cycle
               else cycle)
         else if len \<ge> HEALTH_UDP_PAYLOAD_OFFSET + MCU_OFF_FO_TRANS_TEMP + 2 then
           (let cycle = cycle\<lparr> mcu := parse_mcu_data packet udp_payload (mcu cycle) \<rparr>;
                cycle = cycle\<lparr> mcu := (mcu cycle)\<lparr> health_mcu_info.valid := True \<rparr> \<rparr>
            in cycle\<lparr> total_responses_received := total_responses_received cycle + 1 \<rparr>)
         else cycle)"

definition is_health_response :: "memory \<Rightarrow> nat \<Rightarrow> bool" where
  "is_health_response packet len =
     (if len < 14 then False
      else if packet 4 = 0x11 \<and> packet 5 = 0x84 then True
      else False)"

text \<open>
  The receive loop of one cycle.  The list holds the frames \<open>recv\<close> delivers, each with
  its length, until the deadline passes or \<open>poll\<close> fails; the loop ends earlier once six
  responses are counted.
\<close>

fun receive_health_responses ::
  "(memory \<times> nat) list \<Rightarrow> health_cycle_data \<Rightarrow> health_cycle_data"
where
  "receive_health_responses [] cycle = cycle"
| "receive_health_responses ((buffer, len) # rest) cycle =
     (if \<not> total_responses_received cycle < HEALTH_MONITOR_EXPECTED_RESPONSES then cycle
      else receive_health_responses rest
             (if is_health_response buffer len
              then health_parse_response buffer len cycle
              else cycle))"

text \<open>\<open>memset(&cycle, 0, sizeof(cycle))\<close> at the start of every cycle: every field is
  zero and every flag false.\<close>

definition zero_device_info :: health_device_info where
  "zero_device_info =
     \<lparr> health_device_info.device_id = 0, health_device_info.operation_type = 0,
       health_device_info.config_type = 0, health_device_info.frame_length = 0,
       health_device_info.status_enable = 0, status_addr = 0,
       tx_total_count = 0, rx_total_count = 0, tx_err_total_count = 0,
       rx_err_total_count = 0, heartbeat = 0, device_id2 = 0, port_count = 0,
       token_bucket_status = 0, sw_mode = 0, vendor_id = 0, auto_mac_update = 0,
       upstream_mode = 0, sw_ip_major = 0, sw_ip_minor = 0, sw_ip_patch = 0,
       es_ip_major = 0, es_ip_minor = 0, es_ip_patch = 0,
       sw_input_fifo_size = 0, pkt_pro_fifo_size = 0, sw_output_fifo_size = 0,
       hp_fifo_size = 0, lp_fifo_size = 0, be_fifo_size = 0, tod_ns = 0, tod_sec = 0,
       eth_wrong_dev_cnt = 0, eth_wrong_op_cnt = 0, eth_wrong_type_cnt = 0,
       fpga_voltage = 0, fpga_temp = 0, config_id = 0 \<rparr>"

definition zero_port_info :: health_port_info where
  "zero_port_info =
     \<lparr> port_number = 0, bit_status = 0, crc_err_count = 0, ali_err_count = 0,
       len_exc_64 = 0, len_exc_1518 = 0, min_vl_frame_err = 0, max_vl_frame_err = 0,
       inp_port_terr_cnt = 0, traffic_policy_drop = 0, be_count = 0, tx_count = 0,
       rx_count = 0, vl_source_err = 0, max_delay_err = 0, queue_overflow = 0,
       vlid_drop_count = 0, undef_mac_count = 0, hp_queue_overflow = 0,
       lp_queue_overflow = 0, be_queue_overflow = 0, max_delay_param = 0,
       port_speed = 0, health_port_info.valid = False \<rparr>"

definition zero_mcu_info :: health_mcu_info where
  "zero_mcu_info =
     \<lparr> health_mcu_info.device_id = 0, health_mcu_info.operation_type = 0,
       health_mcu_info.config_type = 0, health_mcu_info.frame_length = 0,
       health_mcu_info.status_enable = 0, fw_major = 0, fw_minor = 0, comp_stat = 0,
       comp_status = 0, volt_12v = 0, curr_12v = 0, volt_3v3 = 0, curr_3v3 = 0,
       volt_1v8 = 0, curr_1v8 = 0, volt_3v3_fo = 0, curr_3v3_fo = 0, curr_1v3 = 0,
       volt_1v3 = 0, curr_1v0_mgr = 0, volt_1v0_mgr = 0, volt_1v0_ast = 0,
       curr_1v0_ast = 0, vdiv_3v3 = 0, vdiv_3v3_fo = 0, vdiv_12v = 0, board_temp = 0,
       fo_trans_temp = 0, health_mcu_info.valid = False \<rparr>"

definition zero_fpga_data :: health_fpga_data where
  "zero_fpga_data =
     \<lparr> device = zero_device_info, ports = replicate HEALTH_MAX_PORTS zero_port_info,
       packets_received = 0, device_info_valid = False, port_count_received = 0 \<rparr>"

definition zero_cycle :: health_cycle_data where
  "zero_cycle =
     \<lparr> assistant = zero_fpga_data, manager = zero_fpga_data, mcu = zero_mcu_info,
       total_responses_received = 0, last_fpga_type = 0 \<rparr>"

section \<open>Example inputs\<close>

text \<open>
  Concrete frames and environments on which the theorems below are instantiated.  A
  received frame is a buffer holding the given bytes, the rest of the buffer zero.
\<close>

definition mbuf_of_bytes :: "uint8_t list \<Rightarrow> rte_mbuf" where
  "mbuf_of_bytes bs =
     \<lparr> data_len = length bs, pkt = (\<lambda>i. if i < length bs then bs ! i else 0),
       l2_len = 0, ol_flags = 0, vlan_tci = 0 \<rparr>"

definition ex_hz :: uint64_t where
  "ex_hz = 1000000000"

text \<open>A Sync on VLAN 97, sequence id 7, origin timestamp 1000 s.\<close>

definition ex_sync_frame :: rte_mbuf where
  "ex_sync_frame = mbuf_of_bytes
     [0x03, 0x00, 0x00, 0x00, 0x11, 0x44,  0x02, 0x00, 0x00, 0x00, 0x00, 0x10,
      0x81, 0x00, 0x00, 0x61, 0x88, 0xF7,
      0x00, 0x02, 0x00, 0x2C, 0x0A, 0x00, 0x00, 0x00,
      0x00, 0x00, 0x00, 0x00, 0x00, 0x00, 0x00, 0x00,
      0x00, 0x00, 0x00, 0x00,
      0xAA, 0xBB, 0xCC, 0xDD, 0xEE, 0xFF, 0x00, 0x01, 0x00, 0x01,
      0x00, 0x07, 0x00, 0x00,
      0x12, 0x34, 0x00, 0x00, 0x03, 0xE8, 0x00, 0x00, 0x00, 0x00]"

text \<open>A Delay\_Resp on VLAN 97 with the given sequence id and receive timestamp (seconds
  and nanoseconds as four wire bytes each).\<close>

definition ex_delay_resp_frame :: "uint8_t list \<Rightarrow> uint8_t list \<Rightarrow> uint8_t list \<Rightarrow> rte_mbuf" where
  "ex_delay_resp_frame seq secs nanos = mbuf_of_bytes
     ([0x03, 0x00, 0x00, 0x00, 0x11, 0x44,  0x02, 0x00, 0x00, 0x00, 0x00, 0x10,
       0x81, 0x00, 0x00, 0x61, 0x88, 0xF7,
       0x09, 0x02, 0x00, 0x36, 0x0A, 0x00, 0x00, 0x00,
       0x00, 0x00, 0x00, 0x00, 0x00, 0x00, 0x00, 0x00,
       0x00, 0x00, 0x00, 0x00,
       0xAA, 0xBB, 0xCC, 0xDD, 0xEE, 0xFF, 0x00, 0x01, 0x00, 0x01]
      @ seq @ [0x03, 0x7F, 0x12, 0x34] @ secs @ nanos @
      [0x00, 0x00, 0x00, 0x00, 0x00, 0x00, 0x00, 0x00, 0x00, 0x00])"

definition ex_tx_ok :: tx_env where
  "ex_tx_ok =
     \<lparr> tx_mbuf_pool = True, pktmbuf_alloc = Some (\<lambda>i. 0xEE), pktmbuf_append = True,
       tsc_before = 100000998, nb_tx = 1, tsc_after = 100001002,
       tx_realtime_ns = 1000000150000 \<rparr>"

text \<open>A session that was initialised, ticked, received \<open>ex_sync_frame\<close> and sent its first
  Delay\_Req: it waits for the Delay\_Resp.\<close>

definition ex_session :: ptp_session_t where
  "ex_session =
     fst (session_run ex_hz (ptp_session_init ex_hz 0 1 0 97 97 4420)
            [Tick 0 ex_tx_ok,
             Rx ex_sync_frame 1000 1000000050000 1000,
             Tick 100001000 ex_tx_ok])"

text \<open>The Delay\_Resp answering the first Delay\_Req (sequence id 0), received at
  1000 s + 200000 ns.\<close>

definition ex_delay_resp_ok :: rte_mbuf where
  "ex_delay_resp_ok =
     ex_delay_resp_frame [0x00, 0x00] [0x00, 0x00, 0x03, 0xE8] [0x00, 0x03, 0x0D, 0x40]"

text \<open>The session after that Delay\_Resp: the first cycle is complete and the session is
  SYNCED.\<close>

definition ex_session_synced :: ptp_session_t where
  "ex_session_synced =
     fst (session_run ex_hz ex_session
            [Rx ex_delay_resp_ok 100200000 1000000300000 100200000])"

text \<open>The session after that Delay\_Resp, the next Sync and the second Delay\_Req: it
  holds the offset and delay of the first cycle and waits for the Delay\_Resp with
  sequence id 1.\<close>

definition ex_session2 :: ptp_session_t where
  "ex_session2 =
     fst (session_run ex_hz ex_session
            [Rx ex_delay_resp_ok 100200000 1000000300000 100200000,
             Rx ex_sync_frame 1000001000 1001000050000 1000001000,
             Tick 1100001000 ex_tx_ok])"

text \<open>A Delay\_Resp with sequence id 1 and an empty receive timestamp, and one with the
  sequence id 99 that no Delay\_Req carried.\<close>

definition ex_delay_resp_empty :: rte_mbuf where
  "ex_delay_resp_empty =
     ex_delay_resp_frame [0x00, 0x01] [0x00, 0x00, 0x00, 0x00] [0x00, 0x00, 0x00, 0x00]"

definition ex_delay_resp_stale :: rte_mbuf where
  "ex_delay_resp_stale =
     ex_delay_resp_frame [0x00, 0x63] [0x00, 0x00, 0x03, 0xE8] [0x00, 0x03, 0x0D, 0x40]"

text \<open>A session configured with TX VLAN 97 and VL-IDX 4420 whose next Delay\_Req sequence
  id is 5.\<close>

definition ex_session_seq5 :: ptp_session_t where
  "ex_session_seq5 = (ptp_session_init ex_hz 0 1 0 97 97 4420)\<lparr> delay_req_seq_id := 5 \<rparr>"

text \<open>A session whose sequence counter has reached 65535, and events that make it send
  two Delay\_Req frames: each Delay\_Resp wait times out, the next Sync starts a cycle.\<close>

definition ex_session_wrap :: ptp_session_t where
  "ex_session_wrap = ex_session\<lparr> delay_req_seq_id := 0xFFFF \<rparr>"

definition ex_events_wrap :: "session_event list" where
  "ex_events_wrap =
     [Tick 2100001001 ex_tx_ok,
      Rx ex_sync_frame 2200000000 1002000000000 2200000000,
      Tick 2300000000 ex_tx_ok,
      Tick 4400000001 ex_tx_ok,
      Rx ex_sync_frame 4500000000 1004000000000 4500000000,
      Tick 4600000001 ex_tx_ok]"

text \<open>
  Health frames in the receive buffer: an MCU frame (FO transceiver temperature 30.00),
  and an FPGA frame whose byte 6 of the UDP payload is \<open>status\<close>.  Both carry the VL-IDX
  0x1184 in bytes 4 and 5; every other byte of the buffer is zero.
\<close>

definition ex_mcu_packet :: memory where
  "ex_mcu_packet =
     (\<lambda>i. if i = 4 then 0x11 else if i = 5 then 0x84
          else if i = 42 + 6 then 0x05
          else if i = 42 + 48 then 0x0B else if i = 42 + 49 then 0xB8 else 0)"

definition ex_fpga_packet :: "uint8_t \<Rightarrow> memory" where
  "ex_fpga_packet status =
     (\<lambda>i. if i = 4 then 0x11 else if i = 5 then 0x84
          else if i = 42 + 6 then status else 0)"

text \<open>The cycle after one 1187-byte frame of the ASSISTANT.\<close>

definition ex_cycle_assistant :: health_cycle_data where
  "ex_cycle_assistant = health_parse_response (ex_fpga_packet 0x03) 1187 zero_cycle"

section \<open>Verified properties\<close>

subsection \<open>Evaluation of the examples\<close>

lemmas byteorder_defs =
  load16_def load32_def store16_def store32_def rte_bswap16_def rte_bswap32_def
  rte_cpu_to_be_16_def rte_be_to_cpu_16_def rte_cpu_to_be_32_def rte_be_to_cpu_32_def
  mem_load16_def mem_load32_def mem_load64_def

lemmas parse_defs =
  ptp_is_ptp_packet_def ptp_get_msg_type_def ptp_get_vlan_id_def get_ptp_header_def
  eth_ether_type_def sizeof_rte_ether_hdr_def sizeof_vlan_hdr_def sizeof_ptp_eth_frame_def
  PTP_ETHERTYPE_def RTE_ETHER_TYPE_VLAN_def PTP_MSG_SYNC_def PTP_MSG_DELAY_REQ_def
  PTP_MSG_FOLLOW_UP_def PTP_MSG_DELAY_RESP_def PTP_MSG_ANNOUNCE_def
  ptp_header_at_def ptp_timestamp_at_def ptp_port_identity_at_def

lemma ex_session_eq:
  "ex_session =
     \<lparr> port_id = 0, tx_port_id = 1, vlan_id = 97, rx_vlan_id = 97,
       tx_vlan_id = 97, tx_vl_idx = 4420, rx_vl_idx = 0, session_idx = 0,
       state = PTP_STATE_DELAY_REQ_SENT, last_state_change = 100001000,
       master_port_id =
         \<lparr> clock_identity = [0xAA, 0xBB, 0xCC, 0xDD, 0xEE, 0xFF, 0x00, 0x01],
           port_number = 0x0100 \<rparr>,
       master_domain = 10,
       our_port_id =
         \<lparr> clock_identity = [0x2C, 0x1A, 0, 0, 0, 0, 0, 0], port_number = 0 \<rparr>,
       sync_seq_id = 7, delay_req_seq_id = 1, last_delay_req_seq_id = 0,
       t1_ns = 1000000000000, t2_tsc = 1000, t2_realtime_ns = 1000000050000,
       t3_tsc = 100001000, t3_realtime_ns = 1000000150000, t4_ns = 0,
       offset_ns = 0, delay_ns = 0, tsc_hz = 1000000000, sync_rx_count = 1,
       delay_req_tx_count = 1, delay_resp_rx_count = 0, sync_timeout_count = 0,
       sync_errors = 0, last_sync_tsc = 1000, last_delay_req_tsc = 100001000,
       is_synced = False, sync_count = 0 \<rparr>"
  by (simp add: ex_session_def ex_hz_def ptp_session_init_def zero_session_def
      zero_port_identity_def ptp_init_port_identity_def ptp_state_machine_tick_def ex_tx_ok_def
      ptp_packet_process_def parse_defs byteorder_defs ex_sync_frame_def mbuf_of_bytes_def
      ptp_handle_sync_def ptp_timestamp_to_ns_def ptp_send_delay_req_def Let_def
      delay_req_interval_cycles_def PTP_DELAY_REQ_INTERVAL_MS_def upt_rec_numeral)

lemmas ex_frame_defs =
  ex_sync_frame_def ex_delay_resp_frame_def ex_delay_resp_ok_def ex_delay_resp_empty_def
  ex_delay_resp_stale_def mbuf_of_bytes_def

lemmas state_defs =
  ptp_state_machine_tick_def ptp_packet_process_def ptp_handle_sync_def
  ptp_handle_delay_resp_def ptp_calculate_offset_delay_def tsc_to_ns_def
  ptp_send_delay_req_def ptp_timestamp_to_ns_def sync_timeout_cycles_def delay_resp_timeout_cycles_def
  delay_req_interval_cycles_def PTP_SYNC_TIMEOUT_SEC_def PTP_DELAY_RESP_TIMEOUT_SEC_def
  PTP_DELAY_REQ_INTERVAL_MS_def

lemma ex_session2_eq:
  "ex_session2 =
     ex_session\<lparr> last_state_change := 1100001000,
       delay_req_seq_id := 2, last_delay_req_seq_id := 1,
       t1_ns := 1000000000000, t2_tsc := 1000001000, t2_realtime_ns := 1001000050000,
       t4_ns := 1000000200000, delay_ns := 50000, sync_rx_count := 2,
       delay_req_tx_count := 2, delay_resp_rx_count := 1, last_sync_tsc := 1000001000,
       is_synced := True, sync_count := 1 \<rparr>"
  by (simp add: ex_session2_def ex_session_eq ex_hz_def ex_tx_ok_def state_defs parse_defs
      byteorder_defs ex_frame_defs Let_def upt_rec_numeral div_s64_def signed_divide_int_def)

lemma ex_delay_resp_empty_header:
  "rte_be_to_cpu_16 (sequence_id (ptp_header_at (pkt ex_delay_resp_empty) 18)) = 1"
  "ptp_timestamp_to_ns (ptp_timestamp_at (pkt ex_delay_resp_empty) 52) = 0"
  by (simp_all add: ex_frame_defs parse_defs byteorder_defs ptp_timestamp_to_ns_def)

lemma ex_delay_resp_stale_parse:
  "ptp_is_ptp_packet ex_delay_resp_stale"
  "ptp_get_msg_type ex_delay_resp_stale = PTP_MSG_DELAY_RESP"
  "ptp_get_vlan_id ex_delay_resp_stale = 97"
  "get_ptp_header ex_delay_resp_stale = Some 18"
  "rte_be_to_cpu_16 (sequence_id (ptp_header_at (pkt ex_delay_resp_stale) 18)) = 99"
  by (simp_all add: ex_frame_defs parse_defs byteorder_defs)

lemma ex_sync_frame_parse:
  "ptp_is_ptp_packet ex_sync_frame"
  "ptp_get_msg_type ex_sync_frame = PTP_MSG_SYNC"
  "ptp_get_vlan_id ex_sync_frame = 97"
  "get_ptp_header ex_sync_frame = Some 18"
  by (simp_all add: ex_frame_defs parse_defs byteorder_defs)

subsection \<open>Arithmetic of the timestamps\<close>

lemma unat_ucast_32_64: "unat (ucast (x :: 32 word) :: 64 word) = unat x"
  by (simp add: unsigned_ucast_eq take_bit_nat_eq_self_iff)
    (use unsigned_less [of x, where 'a = nat] in simp)

text \<open>The multiplication and the addition of \<open>ptp_timestamp_to_ns\<close> do not wrap.\<close>

lemma ptp_timestamp_to_ns_unat:
  "unat (ptp_timestamp_to_ns ts) =
     unat (rte_be_to_cpu_32 (seconds_lsb ts)) * 1000000000 +
     unat (rte_be_to_cpu_32 (nanoseconds ts))"
proof -
  let ?s = "rte_be_to_cpu_32 (seconds_lsb ts)" and ?n = "rte_be_to_cpu_32 (nanoseconds ts)"
  have s: "unat ?s < 2 ^ 32" and n: "unat ?n < 2 ^ 32"
    using unsigned_less [of ?s, where 'a = nat] unsigned_less [of ?n, where 'a = nat]
    by simp_all
  have "unat ?s * 1000000000 + unat ?n < 2 ^ 64"
    using s n by simp
  then show ?thesis
    by (simp add: ptp_timestamp_to_ns_def Let_def unat_word_ariths unat_ucast_32_64)
qed

lemma ptp_timestamp_to_ns_uint:
  "uint (ptp_timestamp_to_ns ts) =
     uint (rte_be_to_cpu_32 (seconds_lsb ts)) * 1000000000 +
     uint (rte_be_to_cpu_32 (nanoseconds ts))"
  using arg_cong [OF ptp_timestamp_to_ns_unat [of ts], of int] by simp

lemma ptp_timestamp_to_ns_bound: "uint (ptp_timestamp_to_ns ts) < 2 ^ 62"
proof -
  let ?s = "rte_be_to_cpu_32 (seconds_lsb ts)" and ?n = "rte_be_to_cpu_32 (nanoseconds ts)"
  have s: "uint ?s < 4294967296" and n: "uint ?n < 4294967296"
    using uint_lt2p [of ?s] uint_lt2p [of ?n] by simp_all
  have "uint ?s * 1000000000 \<le> 4294967295 * 1000000000"
    using s by (intro mult_right_mono) simp_all
  then have "uint ?s * 1000000000 + uint ?n < 4611686018427387904"
    using n by simp
  then show ?thesis by (simp add: ptp_timestamp_to_ns_uint)
qed

lemma signed_take_bit_63_self:
  "- 9223372036854775808 \<le> k \<Longrightarrow> k < 9223372036854775808 \<Longrightarrow> signed_take_bit 63 k = (k :: int)"
  by (rule signed_take_bit_int_eq_self) simp_all

lemma sint_small: "uint (x :: 64 word) < 2 ^ 62 \<Longrightarrow> sint x = uint x"
proof -
  assume "uint x < 2 ^ 62"
  then have a: "uint x < 4611686018427387904" by simp
  have "signed_take_bit 63 (uint x) = uint x"
    by (rule signed_take_bit_63_self) (use a uint_ge_0 [of x] in linarith)+
  then show ?thesis by (simp add: sint_uint)
qed

lemma sint_diff_small:
  fixes a b :: "64 word"
  assumes "uint a < 2 ^ 62" "uint b < 2 ^ 62"
  shows "sint (a - b) = uint a - uint b"
proof -
  have a: "uint a < 4611686018427387904" "uint b < 4611686018427387904"
    using assms by simp_all
  have "signed_take_bit 63 (uint a - uint b) = uint a - uint b"
    by (rule signed_take_bit_63_self) (use a uint_ge_0 [of a] uint_ge_0 [of b] in linarith)+
  then show ?thesis
    using assms by (simp add: sint_word_diff sint_small)
qed

lemma sint_div_s64_2: "sint (div_s64 a 2) = sint a sdiv 2"
proof -
  have r: "- 9223372036854775808 \<le> sint a" "sint a < 9223372036854775808"
    using sint_range_size [of a] by (simp_all add: word_size)
  have "- 9223372036854775808 \<le> sint a sdiv 2 \<and> sint a sdiv 2 < 9223372036854775808"
    using r by (auto simp: signed_divide_int_def sgn_if)
  then show ?thesis
    by (simp add: div_s64_def sint_sbintrunc' signed_take_bit_63_self)
qed

lemma sint_diff_diff_small:
  fixes a b c d :: "64 word"
  assumes "uint a < 2 ^ 62" "uint b < 2 ^ 62" "uint c < 2 ^ 62" "uint d < 2 ^ 62"
  shows "sint ((a - b) - (c - d)) = (uint a - uint b) - (uint c - uint d)"
    and "sint ((a - b) + (c - d)) = (uint a - uint b) + (uint c - uint d)"
proof -
  have lt: "uint a < 4611686018427387904" "uint b < 4611686018427387904"
      "uint c < 4611686018427387904" "uint d < 4611686018427387904"
    using assms by simp_all
  note nn = uint_ge_0 [of a] uint_ge_0 [of b] uint_ge_0 [of c] uint_ge_0 [of d]
  have ab: "sint (a - b) = uint a - uint b" and cd: "sint (c - d) = uint c - uint d"
    using assms by (simp_all add: sint_diff_small)
  have "signed_take_bit 63 ((uint a - uint b) - (uint c - uint d)) =
          (uint a - uint b) - (uint c - uint d)"
    by (rule signed_take_bit_63_self) (use lt nn in linarith)+
  then show "sint ((a - b) - (c - d)) = (uint a - uint b) - (uint c - uint d)"
    by (simp add: sint_word_diff [of "a - b" "c - d"] ab cd)
  have "signed_take_bit 63 ((uint a - uint b) + (uint c - uint d)) =
          (uint a - uint b) + (uint c - uint d)"
    by (rule signed_take_bit_63_self) (use lt nn in linarith)+
  then show "sint ((a - b) + (c - d)) = (uint a - uint b) + (uint c - uint d)"
    by (simp add: sint_word_ariths(1) [of "a - b" "c - d"] ab cd)
qed

subsection \<open>Offset and delay\<close>

lemma ptp_calculate_offset_delay_nonzero:
  "hz \<noteq> 0 \<Longrightarrow> t4_ns session \<noteq> 0 \<Longrightarrow>
   ptp_calculate_offset_delay hz session =
     Some (session\<lparr> offset_ns := div_s64 ((t2_realtime_ns session - t1_ns session) -
                                           (t4_ns session - t3_realtime_ns session)) 2,
                    delay_ns := div_s64 ((t2_realtime_ns session - t1_ns session) +
                                          (t4_ns session - t3_realtime_ns session)) 2,
                    tsc_hz := hz \<rparr>)"
  by (simp add: ptp_calculate_offset_delay_def tsc_to_ns_def Let_def)

lemma ptp_calculate_offset_delay_zero:
  "hz \<noteq> 0 \<Longrightarrow> t4_ns session = 0 \<Longrightarrow>
   ptp_calculate_offset_delay hz session =
     Some (session\<lparr> delay_ns := 0, offset_ns := 0, tsc_hz := hz \<rparr>)"
  by (simp add: ptp_calculate_offset_delay_def tsc_to_ns_def Let_def)

text \<open>The trap: with a zero frequency the calculation does not return, and neither does
  the handler of a Delay\_Resp that completes a cycle.  A call that does not reach the
  calculation returns whatever the frequency.\<close>

lemma ptp_calculate_offset_delay_trap:
  "ptp_calculate_offset_delay hz session = None \<longleftrightarrow> hz = 0"
  by (simp add: ptp_calculate_offset_delay_def tsc_to_ns_def Let_def)

lemma ptp_handle_delay_resp_trap:
  "ptp_handle_delay_resp hz session header timestamp req_port_id now_tsc = None \<longleftrightarrow>
     hz = 0 \<and> rte_be_to_cpu_16 (sequence_id header) = last_delay_req_seq_id session \<and>
     state session = PTP_STATE_DELAY_REQ_SENT"
  using ptp_calculate_offset_delay_trap [of hz "session\<lparr> t4_ns := ptp_timestamp_to_ns timestamp \<rparr>"]
  by (auto simp: ptp_handle_delay_resp_def Let_def split: option.splits)

lemma ptp_packet_process_trap:
  "ptp_packet_process hz session mbuf rx_tsc realtime_ns now_tsc = None \<Longrightarrow> hz = 0"
  by (simp add: ptp_packet_process_def Let_def ptp_handle_delay_resp_trap
      split: if_splits option.splits)

lemma session_step_trap:
  "session_step hz session ev = None \<Longrightarrow> hz = 0"
  by (cases ev) (auto dest: ptp_packet_process_trap split: option.splits prod.splits)

text \<open>
  Claim C1.  When a Delay\_Resp completes a cycle (its sequence id is the one last sent
  and the session waits in DELAY\_REQ\_SENT) and its timestamp t4 is not zero, the handler
  returns (the TSC frequency of a running system is not zero) and the stored offset is
  ((t2\_realtime - t1) - (t4 - t3\_realtime)) / 2 and the stored delay is
  ((t2\_realtime - t1) + (t4 - t3\_realtime)) / 2, computed on signed 64-bit values with the
  quotient truncated towards zero.  Where the three stored timestamps are below 2^62 (t4,
  read from the wire, always is), no step wraps and the values are those of the formulas
  over the integers.
\<close>

theorem offset_delay_formula:
  assumes hz: "hz \<noteq> 0"
    and seq: "rte_be_to_cpu_16 (sequence_id header) = last_delay_req_seq_id session"
    and st: "state session = PTP_STATE_DELAY_REQ_SENT"
    and t4: "ptp_timestamp_to_ns timestamp \<noteq> 0"
  shows "map_option offset_ns
           (ptp_handle_delay_resp hz session header timestamp req_port_id now_tsc) =
           Some (div_s64 ((t2_realtime_ns session - t1_ns session) -
                          (ptp_timestamp_to_ns timestamp - t3_realtime_ns session)) 2)
       \<and> map_option delay_ns
           (ptp_handle_delay_resp hz session header timestamp req_port_id now_tsc) =
           Some (div_s64 ((t2_realtime_ns session - t1_ns session) +
                          (ptp_timestamp_to_ns timestamp - t3_realtime_ns session)) 2)
       \<and> (uint (t1_ns session) < 2 ^ 62 \<and> uint (t2_realtime_ns session) < 2 ^ 62 \<and>
          uint (t3_realtime_ns session) < 2 ^ 62 \<longrightarrow>
            map_option (\<lambda>s. sint (offset_ns s))
              (ptp_handle_delay_resp hz session header timestamp req_port_id now_tsc) =
              Some (((uint (t2_realtime_ns session) - uint (t1_ns session)) -
                     (uint (ptp_timestamp_to_ns timestamp) -
                      uint (t3_realtime_ns session))) sdiv 2)
          \<and> map_option (\<lambda>s. sint (delay_ns s))
              (ptp_handle_delay_resp hz session header timestamp req_port_id now_tsc) =
              Some (((uint (t2_realtime_ns session) - uint (t1_ns session)) +
                     (uint (ptp_timestamp_to_ns timestamp) -
                      uint (t3_realtime_ns session))) sdiv 2))"
proof -
  let ?t4 = "ptp_timestamp_to_ns timestamp"
  let ?off = "div_s64 ((t2_realtime_ns session - t1_ns session) -
                       (?t4 - t3_realtime_ns session)) 2"
  let ?del = "div_s64 ((t2_realtime_ns session - t1_ns session) +
                       (?t4 - t3_realtime_ns session)) 2"
  have r: "ptp_handle_delay_resp hz session header timestamp req_port_id now_tsc =
      Some (session\<lparr> t4_ns := ?t4, offset_ns := ?off, delay_ns := ?del, tsc_hz := hz,
                     state := PTP_STATE_SYNCED, is_synced := True,
                     sync_count := sync_count session + 1,
                     last_state_change := now_tsc \<rparr>)"
    using hz seq st t4
    by (simp add: ptp_handle_delay_resp_def Let_def ptp_calculate_offset_delay_nonzero)
  have int_level:
    "sint ?off =
       ((uint (t2_realtime_ns session) - uint (t1_ns session)) -
        (uint ?t4 - uint (t3_realtime_ns session))) sdiv 2 \<and>
     sint ?del =
       ((uint (t2_realtime_ns session) - uint (t1_ns session)) +
        (uint ?t4 - uint (t3_realtime_ns session))) sdiv 2"
    if b: "uint (t1_ns session) < 2 ^ 62" "uint (t2_realtime_ns session) < 2 ^ 62"
      "uint (t3_realtime_ns session) < 2 ^ 62"
    unfolding sint_div_s64_2
    using sint_diff_diff_small [OF b(2) b(1) ptp_timestamp_to_ns_bound b(3), of timestamp]
    by simp
  show ?thesis
    unfolding r using int_level by simp
qed

lemma ex_delay_resp_ok_header:
  "rte_be_to_cpu_16 (sequence_id (ptp_header_at (pkt ex_delay_resp_ok) 18)) = 0"
  "ptp_timestamp_to_ns (ptp_timestamp_at (pkt ex_delay_resp_ok) 52) = 1000000200000"
  by (simp_all add: ex_delay_resp_ok_def ex_delay_resp_frame_def mbuf_of_bytes_def parse_defs
      byteorder_defs ptp_timestamp_to_ns_def)

theorem offset_delay_formula_witness:
  "ex_hz \<noteq> 0
   \<and> rte_be_to_cpu_16 (sequence_id (ptp_header_at (pkt ex_delay_resp_ok) 18)) =
     last_delay_req_seq_id ex_session
   \<and> state ex_session = PTP_STATE_DELAY_REQ_SENT
   \<and> ptp_timestamp_to_ns (ptp_timestamp_at (pkt ex_delay_resp_ok) 52) \<noteq> 0
   \<and> map_option offset_ns (ptp_handle_delay_resp ex_hz ex_session
        (ptp_header_at (pkt ex_delay_resp_ok) 18)
        (ptp_timestamp_at (pkt ex_delay_resp_ok) 52)
        (ptp_port_identity_at (pkt ex_delay_resp_ok) 62) 100200000) = Some 0
   \<and> map_option delay_ns (ptp_handle_delay_resp ex_hz ex_session
        (ptp_header_at (pkt ex_delay_resp_ok) 18)
        (ptp_timestamp_at (pkt ex_delay_resp_ok) 52)
        (ptp_port_identity_at (pkt ex_delay_resp_ok) 62) 100200000) = Some 50000"
proof -
  have h0: "ex_hz \<noteq> 0"
    by (simp add: ex_hz_def)
  have h1: "rte_be_to_cpu_16 (sequence_id (ptp_header_at (pkt ex_delay_resp_ok) 18)) =
     last_delay_req_seq_id ex_session"
    by (simp add: ex_delay_resp_ok_header ex_session_eq)
  have h2: "state ex_session = PTP_STATE_DELAY_REQ_SENT"
    by (simp add: ex_session_eq)
  have h3: "ptp_timestamp_to_ns (ptp_timestamp_at (pkt ex_delay_resp_ok) 52) \<noteq> 0"
    by (simp add: ex_delay_resp_ok_header)
  have v: "t1_ns ex_session = 1000000000000" "t2_realtime_ns ex_session = 1000000050000"
    "t3_realtime_ns ex_session = 1000000150000"
    by (simp_all add: ex_session_eq)
  show ?thesis
    using h0 h1 h2 h3
      offset_delay_formula [OF h0 h1 h2 h3, of
        "ptp_port_identity_at (pkt ex_delay_resp_ok) 62" 100200000]
    by (simp add: ex_delay_resp_ok_header v div_s64_def signed_divide_int_def)
qed

text \<open>
  Claim C2, as the code has it.  When an accepted Delay\_Resp (sequence id matching
  \<open>last_delay_req_seq_id\<close>, session in DELAY\_REQ\_SENT) carries the timestamp t4 = 0, the
  handler returns (the TSC frequency of a running system is not zero), the formulas are
  not evaluated and \<open>offset_ns\<close> and \<open>delay_ns\<close> are both set to 0; the state becomes
  SYNCED, \<open>is_synced\<close> is set and \<open>sync_count\<close> is incremented.  No other field changes
  but \<open>t4_ns\<close>, \<open>tsc_hz\<close> and \<open>last_state_change\<close>: the session has no missing-t4
  counter.
\<close>

theorem delay_resp_empty_t4_resets:
  assumes hz: "hz \<noteq> 0"
    and seq: "rte_be_to_cpu_16 (sequence_id header) = last_delay_req_seq_id session"
    and st: "state session = PTP_STATE_DELAY_REQ_SENT"
    and t4: "ptp_timestamp_to_ns timestamp = 0"
  shows "ptp_handle_delay_resp hz session header timestamp req_port_id now_tsc =
           Some (session\<lparr> t4_ns := 0, delay_ns := 0, offset_ns := 0, tsc_hz := hz,
                          state := PTP_STATE_SYNCED, is_synced := True,
                          sync_count := sync_count session + 1,
                          last_state_change := now_tsc \<rparr>)"
  using hz seq st t4
  by (simp add: ptp_handle_delay_resp_def Let_def ptp_calculate_offset_delay_zero)

theorem delay_resp_empty_t4_resets_witness:
  "ex_hz \<noteq> 0
   \<and> rte_be_to_cpu_16 (sequence_id (ptp_header_at (pkt ex_delay_resp_empty) 18)) =
     last_delay_req_seq_id ex_session2
   \<and> state ex_session2 = PTP_STATE_DELAY_REQ_SENT
   \<and> ptp_timestamp_to_ns (ptp_timestamp_at (pkt ex_delay_resp_empty) 52) = 0
   \<and> ptp_handle_delay_resp ex_hz ex_session2 (ptp_header_at (pkt ex_delay_resp_empty) 18)
        (ptp_timestamp_at (pkt ex_delay_resp_empty) 52)
        (ptp_port_identity_at (pkt ex_delay_resp_empty) 62) 1100200000 =
      Some (ex_session2\<lparr> t4_ns := 0, delay_ns := 0, offset_ns := 0, tsc_hz := ex_hz,
                          state := PTP_STATE_SYNCED, is_synced := True,
                          sync_count := 2, last_state_change := 1100200000 \<rparr>)"
proof -
  have h0: "ex_hz \<noteq> 0"
    by (simp add: ex_hz_def)
  have h1: "rte_be_to_cpu_16 (sequence_id (ptp_header_at (pkt ex_delay_resp_empty) 18)) =
     last_delay_req_seq_id ex_session2"
    by (simp add: ex_delay_resp_empty_header ex_session2_eq ex_session_eq)
  have h2: "state ex_session2 = PTP_STATE_DELAY_REQ_SENT"
    by (simp add: ex_session2_eq ex_session_eq)
  have h3: "ptp_timestamp_to_ns (ptp_timestamp_at (pkt ex_delay_resp_empty) 52) = 0"
    by (simp add: ex_delay_resp_empty_header)
  have sc: "sync_count ex_session2 + 1 = 2"
    by (simp add: ex_session2_eq ex_session_eq)
  show ?thesis
    using h0 h1 h2 h3
      delay_resp_empty_t4_resets [OF h0 h1 h2 h3, of
        "ptp_port_identity_at (pkt ex_delay_resp_empty) 62" 1100200000]
    by (simp add: sc)
qed

text \<open>The claim as stated fails: a session that holds the delay 50000 ns of its previous
  cycle does not keep it when the Delay\_Resp of the next cycle has t4 = 0.\<close>

theorem delay_resp_empty_t4_not_kept:
  "rte_be_to_cpu_16 (sequence_id (ptp_header_at (pkt ex_delay_resp_empty) 18)) =
     last_delay_req_seq_id ex_session2
   \<and> state ex_session2 = PTP_STATE_DELAY_REQ_SENT
   \<and> ptp_timestamp_to_ns (ptp_timestamp_at (pkt ex_delay_resp_empty) 52) = 0
   \<and> delay_ns ex_session2 = 50000
   \<and> map_option delay_ns (ptp_handle_delay_resp ex_hz ex_session2
        (ptp_header_at (pkt ex_delay_resp_empty) 18)
        (ptp_timestamp_at (pkt ex_delay_resp_empty) 52)
        (ptp_port_identity_at (pkt ex_delay_resp_empty) 62) 1100200000) = Some 0
   \<and> map_option (\<lambda>r. delay_ns (snd r)) (ptp_packet_process ex_hz ex_session2
        ex_delay_resp_empty 1100200000 1001000400000 1100200000) = Some 0
   \<and> map_option (\<lambda>r. state (snd r)) (ptp_packet_process ex_hz ex_session2
        ex_delay_resp_empty 1100200000 1001000400000 1100200000) = Some PTP_STATE_SYNCED"
  by (simp add: ex_delay_resp_empty_header ex_session2_eq ex_session_eq
      ptp_handle_delay_resp_def ptp_calculate_offset_delay_def tsc_to_ns_def Let_def
      ptp_packet_process_def parse_defs byteorder_defs ex_frame_defs ex_hz_def
      ptp_timestamp_to_ns_def)

subsection \<open>Sync handling\<close>

lemma ptp_handle_sync_sync_rx_count:
  "sync_rx_count (ptp_handle_sync session header timestamp rx_tsc realtime_ns) =
     sync_rx_count session"
  by (simp add: ptp_handle_sync_def Let_def)

text \<open>The Delay\_Resp handler writes t4, the offset, the delay and the state, never t1 or
  t2.\<close>

lemma ptp_handle_delay_resp_keeps_t1_t2:
  assumes "ptp_handle_delay_resp hz session header timestamp req_port_id now_tsc =
             Some session'"
  shows "t1_ns session' = t1_ns session \<and> t2_tsc session' = t2_tsc session \<and>
         t2_realtime_ns session' = t2_realtime_ns session"
proof (cases "hz = 0")
  case True
  then show ?thesis
    using assms
    by (auto simp: ptp_handle_delay_resp_def ptp_calculate_offset_delay_def tsc_to_ns_def
        Let_def split: if_splits)
next
  case False
  then show ?thesis
    using assms
    by (auto simp: ptp_handle_delay_resp_def ptp_calculate_offset_delay_def tsc_to_ns_def
        Let_def split: if_splits)
qed

lemma ptp_handle_sync_mid_cycle:
  assumes "state session = PTP_STATE_SYNC_RECEIVED \<or> state session = PTP_STATE_DELAY_REQ_SENT"
  shows "ptp_handle_sync session header timestamp rx_tsc realtime_ns =
           session\<lparr> master_port_id := source_port_id header,
                    master_domain := domain_number header,
                    sync_seq_id := rte_be_to_cpu_16 (sequence_id header),
                    last_sync_tsc := rx_tsc \<rparr>"
  using assms by (auto simp: ptp_handle_sync_def Let_def)

lemma ptp_packet_process_keeps_t1_t2:
  assumes st: "state session = PTP_STATE_SYNC_RECEIVED \<or>
               state session = PTP_STATE_DELAY_REQ_SENT"
    and p: "ptp_packet_process hz session mbuf rx_tsc realtime_ns now_tsc =
              Some (status, session')"
  shows "t1_ns session' = t1_ns session \<and> t2_tsc session' = t2_tsc session \<and>
         t2_realtime_ns session' = t2_realtime_ns session"
proof (cases "get_ptp_header mbuf")
  case None
  then show ?thesis
    using p by (auto simp: ptp_packet_process_def Let_def split: if_splits)
next
  case (Some hdr)
  consider (sync) "ptp_get_msg_type mbuf = PTP_MSG_SYNC"
    | (resp) "ptp_get_msg_type mbuf \<noteq> PTP_MSG_SYNC" "ptp_get_msg_type mbuf = PTP_MSG_DELAY_RESP"
    | (other) "ptp_get_msg_type mbuf \<noteq> PTP_MSG_SYNC" "ptp_get_msg_type mbuf \<noteq> PTP_MSG_DELAY_RESP"
    by blast
  then show ?thesis
  proof cases
    case sync
    then show ?thesis
      using p Some
      by (auto simp: ptp_packet_process_def Let_def ptp_handle_sync_mid_cycle [OF st]
          split: if_splits)
  next
    case resp
    then show ?thesis
      using p Some
      by (auto simp: ptp_packet_process_def Let_def split: if_splits option.splits
          dest: ptp_handle_delay_resp_keeps_t1_t2)
  next
    case other
    then show ?thesis
      using p Some
      by (auto simp: ptp_packet_process_def Let_def split: if_splits)
  qed
qed

lemma ptp_state_machine_tick_keeps_t1_t2:
  assumes "state session = PTP_STATE_SYNC_RECEIVED \<or> state session = PTP_STATE_DELAY_REQ_SENT"
  shows "t1_ns (fst (ptp_state_machine_tick hz env session current_tsc)) = t1_ns session \<and>
         t2_tsc (fst (ptp_state_machine_tick hz env session current_tsc)) = t2_tsc session \<and>
         t2_realtime_ns (fst (ptp_state_machine_tick hz env session current_tsc)) =
           t2_realtime_ns session"
  using assms
  by (auto simp: ptp_state_machine_tick_def ptp_send_delay_req_def Let_def
      split: option.split)

lemma session_step_keeps_t1_t2:
  assumes st: "state session = PTP_STATE_SYNC_RECEIVED \<or>
               state session = PTP_STATE_DELAY_REQ_SENT"
  shows "case session_step hz session ev of
           None \<Rightarrow> hz = 0
         | Some (session', sent) \<Rightarrow>
             t1_ns session' = t1_ns session
             \<and> t2_tsc session' = t2_tsc session
             \<and> t2_realtime_ns session' = t2_realtime_ns session"
proof (cases "session_step hz session ev")
  case None
  then show ?thesis
    using session_step_trap [of hz session ev] by simp
next
  case (Some r)
  obtain session' sent where r: "r = (session', sent)"
    by (cases r)
  have "t1_ns session' = t1_ns session \<and> t2_tsc session' = t2_tsc session \<and>
        t2_realtime_ns session' = t2_realtime_ns session"
  proof (cases ev)
    case (Rx mbuf rx_tsc realtime_ns now_tsc)
    then obtain status where
      "ptp_packet_process hz session mbuf rx_tsc realtime_ns now_tsc = Some (status, session')"
      using Some r by (auto split: option.splits)
    then show ?thesis
      by (rule ptp_packet_process_keeps_t1_t2 [OF st])
  next
    case (Tick current_tsc env)
    then have "session' = fst (ptp_state_machine_tick hz env session current_tsc)"
      using Some r by (auto split: prod.splits option.splits)
    then show ?thesis
      using ptp_state_machine_tick_keeps_t1_t2 [OF st, of hz env current_tsc] by simp
  qed
  then show ?thesis
    by (simp add: Some r)
qed

text \<open>
  Claim C6.  In SYNC\_RECEIVED and in DELAY\_REQ\_SENT, \<open>ptp_handle_sync\<close> updates the
  master identity and domain, the Sync sequence id and \<open>last_sync_tsc\<close>, and nothing else;
  \<open>t1_ns\<close>, \<open>t2_tsc\<close> and \<open>t2_realtime_ns\<close> keep their values.  They are not overwritten
  mid-cycle by anything else either: no received packet and no tick changes them in
  these two states.
\<close>

theorem sync_mid_cycle_keeps_t1_t2:
  assumes "state session = PTP_STATE_SYNC_RECEIVED \<or> state session = PTP_STATE_DELAY_REQ_SENT"
  shows "ptp_handle_sync session header timestamp rx_tsc realtime_ns =
           session\<lparr> master_port_id := source_port_id header,
                    master_domain := domain_number header,
                    sync_seq_id := rte_be_to_cpu_16 (sequence_id header),
                    last_sync_tsc := rx_tsc \<rparr>
       \<and> t1_ns (ptp_handle_sync session header timestamp rx_tsc realtime_ns) = t1_ns session
       \<and> t2_tsc (ptp_handle_sync session header timestamp rx_tsc realtime_ns) = t2_tsc session
       \<and> t2_realtime_ns (ptp_handle_sync session header timestamp rx_tsc realtime_ns) =
           t2_realtime_ns session
       \<and> (\<forall>ev. case session_step hz session ev of
                None \<Rightarrow> hz = 0
              | Some (session', sent) \<Rightarrow>
                  t1_ns session' = t1_ns session
                  \<and> t2_tsc session' = t2_tsc session
                  \<and> t2_realtime_ns session' = t2_realtime_ns session)"
proof -
  note hs = ptp_handle_sync_mid_cycle [OF assms, of header timestamp rx_tsc realtime_ns]
  show ?thesis
  proof (intro conjI allI)
    show "ptp_handle_sync session header timestamp rx_tsc realtime_ns =
           session\<lparr> master_port_id := source_port_id header,
                    master_domain := domain_number header,
                    sync_seq_id := rte_be_to_cpu_16 (sequence_id header),
                    last_sync_tsc := rx_tsc \<rparr>"
      by (rule hs)
    show "t1_ns (ptp_handle_sync session header timestamp rx_tsc realtime_ns) = t1_ns session"
      by (simp add: hs)
    show "t2_tsc (ptp_handle_sync session header timestamp rx_tsc realtime_ns) =
            t2_tsc session"
      by (simp add: hs)
    show "t2_realtime_ns (ptp_handle_sync session header timestamp rx_tsc realtime_ns) =
            t2_realtime_ns session"
      by (simp add: hs)
    show "case session_step hz session ev of
            None \<Rightarrow> hz = 0
          | Some (session', sent) \<Rightarrow>
              t1_ns session' = t1_ns session
              \<and> t2_tsc session' = t2_tsc session
              \<and> t2_realtime_ns session' = t2_realtime_ns session" for ev
      by (rule session_step_keeps_t1_t2 [OF assms])
  qed
qed

theorem sync_mid_cycle_keeps_t1_t2_witness:
  "(state ex_session = PTP_STATE_SYNC_RECEIVED \<or> state ex_session = PTP_STATE_DELAY_REQ_SENT)
   \<and> t1_ns ex_session = 1000000000000
   \<and> t1_ns (ptp_handle_sync ex_session (ptp_header_at (pkt ex_sync_frame) 18)
        (ptp_timestamp_at (pkt ex_sync_frame) 52) 100100000 1000000250000) = 1000000000000
   \<and> t2_tsc (ptp_handle_sync ex_session (ptp_header_at (pkt ex_sync_frame) 18)
        (ptp_timestamp_at (pkt ex_sync_frame) 52) 100100000 1000000250000) = 1000
   \<and> t2_realtime_ns (ptp_handle_sync ex_session (ptp_header_at (pkt ex_sync_frame) 18)
        (ptp_timestamp_at (pkt ex_sync_frame) 52) 100100000 1000000250000) = 1000000050000
   \<and> last_sync_tsc (ptp_handle_sync ex_session (ptp_header_at (pkt ex_sync_frame) 18)
        (ptp_timestamp_at (pkt ex_sync_frame) 52) 100100000 1000000250000) = 100100000
   \<and> map_option (\<lambda>r. t1_ns (fst r))
        (session_step ex_hz ex_session (Rx ex_sync_frame 100100000 1000000250000 100100000)) =
        Some 1000000000000
   \<and> map_option (\<lambda>r. t2_tsc (fst r))
        (session_step ex_hz ex_session (Rx ex_sync_frame 100100000 1000000250000 100100000)) =
        Some 1000"
proof -
  have h: "state ex_session = PTP_STATE_SYNC_RECEIVED \<or>
           state ex_session = PTP_STATE_DELAY_REQ_SENT"
    by (simp add: ex_session_eq)
  have v: "t1_ns ex_session = 1000000000000" "t2_tsc ex_session = 1000"
    "t2_realtime_ns ex_session = 1000000050000"
    by (simp_all add: ex_session_eq)
  have vl: "rx_vlan_id ex_session = 97"
    by (simp add: ex_session_eq)
  have p: "ptp_packet_process ex_hz ex_session ex_sync_frame 100100000 1000000250000
             100100000 =
           Some (0, (ptp_handle_sync ex_session (ptp_header_at (pkt ex_sync_frame) 18)
                       (ptp_timestamp_at (pkt ex_sync_frame) 52) 100100000 1000000250000)
                    \<lparr> sync_rx_count := sync_rx_count ex_session + 1 \<rparr>)"
    using ex_sync_frame_parse vl
    by (simp add: ptp_packet_process_def Let_def PTP_MSG_SYNC_def
        ptp_handle_sync_sync_rx_count)
  note inst = sync_mid_cycle_keeps_t1_t2 [OF h, of "ptp_header_at (pkt ex_sync_frame) 18"
        "ptp_timestamp_at (pkt ex_sync_frame) 52" 100100000 1000000250000 ex_hz]
  note e = inst [THEN conjunct1]
  note st = inst [THEN conjunct2, THEN conjunct2, THEN conjunct2, THEN conjunct2, THEN spec,
        of "Rx ex_sync_frame 100100000 1000000250000 100100000"]
  have hv: "t1_ns (ptp_handle_sync ex_session (ptp_header_at (pkt ex_sync_frame) 18)
        (ptp_timestamp_at (pkt ex_sync_frame) 52) 100100000 1000000250000) = 1000000000000"
    "t2_tsc (ptp_handle_sync ex_session (ptp_header_at (pkt ex_sync_frame) 18)
        (ptp_timestamp_at (pkt ex_sync_frame) 52) 100100000 1000000250000) = 1000"
    "t2_realtime_ns (ptp_handle_sync ex_session (ptp_header_at (pkt ex_sync_frame) 18)
        (ptp_timestamp_at (pkt ex_sync_frame) 52) 100100000 1000000250000) = 1000000050000"
    "last_sync_tsc (ptp_handle_sync ex_session (ptp_header_at (pkt ex_sync_frame) 18)
        (ptp_timestamp_at (pkt ex_sync_frame) 52) 100100000 1000000250000) = 100100000"
    unfolding e by (simp_all add: v)
  have sv: "map_option (\<lambda>r. t1_ns (fst r))
        (session_step ex_hz ex_session (Rx ex_sync_frame 100100000 1000000250000 100100000)) =
        Some 1000000000000"
    "map_option (\<lambda>r. t2_tsc (fst r))
        (session_step ex_hz ex_session (Rx ex_sync_frame 100100000 1000000250000 100100000)) =
        Some 1000"
    using st by (simp_all add: p v)
  show ?thesis
    using h v(1) hv sv by simp
qed

subsection \<open>Byte order\<close>

lemma mask_numerals_16:
  "(0x00FF :: 16 word) = mask 8" "(0xFF00 :: 16 word) = push_bit 8 (mask 8)"
  by (simp_all add: mask_eq_exp_minus_1 push_bit_eq_mult)

lemma mask_numerals_32:
  "(0x000000FF :: 32 word) = mask 8" "(0x0000FF00 :: 32 word) = push_bit 8 (mask 8)"
  "(0x00FF0000 :: 32 word) = push_bit 16 (mask 8)"
  "(0xFF000000 :: 32 word) = push_bit 24 (mask 8)"
  by (simp_all add: mask_eq_exp_minus_1 push_bit_eq_mult)

lemma rte_bswap16_load16:
  "rte_bswap16 (load16 w0 w1) = push_bit 8 (ucast w0) OR ucast w1"
  unfolding rte_bswap16_def load16_def mask_numerals_16
  by (rule bit_word_eqI) (auto simp: bit_simps dest: bit_imp_le_length)

lemma rte_bswap16_involution: "rte_bswap16 (rte_bswap16 x) = x"
  unfolding rte_bswap16_def mask_numerals_16
  by (rule bit_word_eqI) (auto simp: bit_simps dest: bit_imp_le_length)

lemma load16_store16: "store16 x = [b0, b1] \<Longrightarrow> load16 b0 b1 = x"
  unfolding store16_def load16_def
  by (rule bit_word_eqI) (auto simp: bit_simps dest: bit_imp_le_length)

lemma load32_and_masks:
  "load32 w0 w1 w2 w3 AND mask 8 = ucast w0"
  "load32 w0 w1 w2 w3 AND push_bit 8 (mask 8) = push_bit 8 (ucast w1)"
  "load32 w0 w1 w2 w3 AND push_bit 16 (mask 8) = push_bit 16 (ucast w2)"
  "load32 w0 w1 w2 w3 AND push_bit 24 (mask 8) = push_bit 24 (ucast w3)"
  unfolding load32_def
  by (rule bit_word_eqI; auto simp: bit_simps dest: bit_imp_le_length)+

lemma drop_push_byte:
  "drop_bit 8 (push_bit 16 (ucast (w :: 8 word)) :: 32 word) = push_bit 8 (ucast w)"
  "drop_bit 24 (push_bit 24 (ucast (w :: 8 word)) :: 32 word) = ucast w"
  "push_bit 8 (push_bit 8 (ucast (w :: 8 word)) :: 32 word) = push_bit 16 (ucast w)"
  by (rule bit_word_eqI; auto simp: bit_simps dest: bit_imp_le_length)+

lemma rte_bswap32_load32:
  "rte_bswap32 (load32 w0 w1 w2 w3) =
     push_bit 24 (ucast w0) OR push_bit 16 (ucast w1) OR push_bit 8 (ucast w2) OR ucast w3"
  unfolding rte_bswap32_def mask_numerals_32 load32_and_masks drop_push_byte ..

lemma or_eq_add_be32:
  fixes w0 w1 w2 w3 :: "8 word"
  shows "(push_bit 24 (ucast w0) OR push_bit 16 (ucast w1) OR push_bit 8 (ucast w2) OR
            ucast w3 :: 32 word) =
           push_bit 24 (ucast w0) + (push_bit 16 (ucast w1) + (push_bit 8 (ucast w2) + ucast w3))"
proof -
  have 1: "(push_bit 8 (ucast w2) OR ucast w3 :: 32 word) = push_bit 8 (ucast w2) + ucast w3"
    by (rule disjunctive_add [symmetric]) (auto simp: bit_simps dest: bit_imp_le_length)
  have 2: "(push_bit 16 (ucast w1) OR (push_bit 8 (ucast w2) OR ucast w3) :: 32 word) =
      push_bit 16 (ucast w1) + (push_bit 8 (ucast w2) OR ucast w3)"
    by (rule disjunctive_add [symmetric]) (auto simp: bit_simps dest: bit_imp_le_length)
  have 3: "(push_bit 24 (ucast w0) OR
             (push_bit 16 (ucast w1) OR (push_bit 8 (ucast w2) OR ucast w3)) :: 32 word) =
      push_bit 24 (ucast w0) + (push_bit 16 (ucast w1) OR (push_bit 8 (ucast w2) OR ucast w3))"
    by (rule disjunctive_add [symmetric]) (auto simp: bit_simps dest: bit_imp_le_length)
  show ?thesis
    using 1 2 3 by (simp add: or.assoc)
qed

text \<open>Four wire bytes read through \<open>rte_be_to_cpu_32\<close> are the big-endian number.\<close>

lemma unat_be32:
  fixes w0 w1 w2 w3 :: "8 word"
  shows "unat (rte_be_to_cpu_32 (load32 w0 w1 w2 w3)) =
           unat w0 * 16777216 + unat w1 * 65536 + unat w2 * 256 + unat w3"
proof -
  have b: "unat w0 < 256" "unat w1 < 256" "unat w2 < 256" "unat w3 < 256"
    using unsigned_less [of w0, where 'a = nat] unsigned_less [of w1, where 'a = nat]
      unsigned_less [of w2, where 'a = nat] unsigned_less [of w3, where 'a = nat] by simp_all
  have u: "unat (ucast w :: 32 word) = unat w" for w :: "8 word"
    using unsigned_less [of w, where 'a = nat]
    by (simp add: unsigned_ucast_eq take_bit_nat_eq_self_iff)
  have "unat w0 * 16777216 \<le> 255 * 16777216" "unat w1 * 65536 \<le> 255 * 65536"
    "unat w2 * 256 \<le> 255 * 256"
    using b by simp_all
  then have lt: "unat w0 * 16777216 + (unat w1 * 65536 + (unat w2 * 256 + unat w3)) < 4294967296"
    using b by linarith
  show ?thesis
    unfolding rte_be_to_cpu_32_def rte_bswap32_load32 or_eq_add_be32
    using lt b by (simp add: unat_word_ariths push_bit_eq_mult u)
qed

subsection \<open>The timestamp codec\<close>

text \<open>
  Claim C9.  Two wire timestamps that differ only in the two high bytes of the seconds
  field parse to the same value: \<open>ptp_timestamp_to_ns\<close> does not read \<open>seconds_msb\<close>.
  The value is the big-endian number in the four low seconds bytes times 10^9 plus the
  big-endian number in the four nanoseconds bytes, without wrap-around; the function has
  no error result.  On transmit \<open>ns_to_ptp_timestamp\<close> stores zero in \<open>seconds_msb\<close>, so
  the first two of the ten bytes are zero, and the origin timestamp of a Delay\_Req is
  zeroed with them.
\<close>

theorem seconds_msb_ignored:
  "ptp_timestamp_to_ns (ptp_timestamp_at (mem(a := m0, a + 1 := m1)) a) =
     ptp_timestamp_to_ns (ptp_timestamp_at mem a)
   \<and> ptp_timestamp_to_ns (ts\<lparr> seconds_msb := m \<rparr>) = ptp_timestamp_to_ns ts
   \<and> unat (ptp_timestamp_to_ns (ptp_timestamp_at mem a)) =
       (unat (mem (a + 2)) * 16777216 + unat (mem (a + 3)) * 65536 +
        unat (mem (a + 4)) * 256 + unat (mem (a + 5))) * 1000000000 +
       (unat (mem (a + 6)) * 16777216 + unat (mem (a + 7)) * 65536 +
        unat (mem (a + 8)) * 256 + unat (mem (a + 9)))
   \<and> seconds_msb (ns_to_ptp_timestamp ns) = 0
   \<and> take 2 (bytes_of_ptp_timestamp (ns_to_ptp_timestamp ns)) = [0, 0]
   \<and> seconds_msb (ptp_timestamp_at (build_delay_req session mem0) 52) = 0"
proof -
  have 1: "ptp_timestamp_to_ns (ptp_timestamp_at (mem(a := m0, a + 1 := m1)) a) =
     ptp_timestamp_to_ns (ptp_timestamp_at mem a)"
    by (simp add: ptp_timestamp_to_ns_def ptp_timestamp_at_def mem_load32_def)
  have 2: "ptp_timestamp_to_ns (ts\<lparr> seconds_msb := m \<rparr>) = ptp_timestamp_to_ns ts"
    by (simp add: ptp_timestamp_to_ns_def)
  have 3: "unat (ptp_timestamp_to_ns (ptp_timestamp_at mem a)) =
       (unat (mem (a + 2)) * 16777216 + unat (mem (a + 3)) * 65536 +
        unat (mem (a + 4)) * 256 + unat (mem (a + 5))) * 1000000000 +
       (unat (mem (a + 6)) * 16777216 + unat (mem (a + 7)) * 65536 +
        unat (mem (a + 8)) * 256 + unat (mem (a + 9)))"
  proof -
    have e: "a + 2 + 1 = a + 3" "a + 2 + 2 = a + 4" "a + 2 + 3 = a + 5"
      "a + 6 + 1 = a + 7" "a + 6 + 2 = a + 8" "a + 6 + 3 = a + 9"
      by simp_all
    show ?thesis
      unfolding ptp_timestamp_to_ns_unat ptp_timestamp_at_def mem_load32_def
      by (simp only: ptp_timestamp_t.simps e unat_be32)
  qed
  have 4: "seconds_msb (ns_to_ptp_timestamp ns) = 0"
    by (simp add: ns_to_ptp_timestamp_def Let_def)
  have 5: "take 2 (bytes_of_ptp_timestamp (ns_to_ptp_timestamp ns)) = [0, 0]"
    by (simp add: bytes_of_ptp_timestamp_def ns_to_ptp_timestamp_def Let_def store16_def)
  have 6: "seconds_msb (ptp_timestamp_at (build_delay_req session mem0) 52) = 0"
    by (simp add: build_delay_req_def Let_def ptp_timestamp_at_def mem_load16_def load16_def
        mem_set_def sizeof_rte_ether_hdr_def sizeof_vlan_hdr_def)
  show ?thesis
    using 1 2 3 4 5 6 by blast
qed


theorem seconds_msb_ignored_witness:
  "ptp_timestamp_to_ns (ptp_timestamp_at (pkt ex_sync_frame) 52) = 1000000000000
   \<and> ptp_timestamp_to_ns
        (ptp_timestamp_at ((pkt ex_sync_frame)(52 := 0xFF, 52 + 1 := 0xFE)) 52) = 1000000000000"
proof -
  have v: "ptp_timestamp_to_ns (ptp_timestamp_at (pkt ex_sync_frame) 52) = 1000000000000"
    by (simp add: ex_frame_defs parse_defs byteorder_defs ptp_timestamp_to_ns_def)
  show ?thesis
    using v seconds_msb_ignored [of "pkt ex_sync_frame" 52 "0xFF" "0xFE"]
    by simp
qed

subsection \<open>Counting received messages\<close>

text \<open>
  Claim C3, as the code has it.  A Delay\_Resp whose sequence id differs from
  \<open>last_delay_req_seq_id\<close>, processed by a session in DELAY\_REQ\_SENT, is ignored by
  \<open>ptp_handle_delay_resp\<close>: the state and every field the handler owns stay as they are.
  \<open>ptp_packet_process\<close> still counts it: \<open>delay_resp_rx_count\<close>, the total of Delay\_Resp
  messages received, is incremented.  The session then stays in DELAY\_REQ\_SENT at every
  tick until \<open>current_tsc - last_state_change\<close> exceeds the Delay\_Resp timeout, when it
  returns to LISTENING.
\<close>

theorem stale_delay_resp_keeps_state:
  assumes ptp: "ptp_is_ptp_packet mbuf"
    and ty: "ptp_get_msg_type mbuf = PTP_MSG_DELAY_RESP"
    and vl: "ptp_get_vlan_id mbuf = rx_vlan_id session"
    and hd: "get_ptp_header mbuf = Some hdr"
    and seq: "rte_be_to_cpu_16 (sequence_id (ptp_header_at (pkt mbuf) hdr)) \<noteq>
                last_delay_req_seq_id session"
    and st: "state session = PTP_STATE_DELAY_REQ_SENT"
  shows "ptp_packet_process hz session mbuf rx_tsc realtime_ns now_tsc =
           Some (0, session\<lparr> delay_resp_rx_count := delay_resp_rx_count session + 1 \<rparr>)
       \<and> ptp_handle_delay_resp hz session (ptp_header_at (pkt mbuf) hdr) timestamp
             req_port_id now_tsc = Some session
       \<and> ptp_state_machine_tick hz env
             (session\<lparr> delay_resp_rx_count := delay_resp_rx_count session + 1 \<rparr>) current_tsc =
           (if current_tsc - last_state_change session > delay_resp_timeout_cycles hz
            then (session\<lparr> delay_resp_rx_count := delay_resp_rx_count session + 1,
                            sync_timeout_count := sync_timeout_count session + 1,
                            state := PTP_STATE_LISTENING,
                            last_state_change := current_tsc \<rparr>, None)
            else (session\<lparr> delay_resp_rx_count := delay_resp_rx_count session + 1 \<rparr>, None))"
proof -
  have h: "ptp_handle_delay_resp hz session (ptp_header_at (pkt mbuf) hdr) timestamp
             req_port_id now_tsc = Some session" for timestamp req_port_id
    using seq by (simp add: ptp_handle_delay_resp_def Let_def)
  have p: "ptp_packet_process hz session mbuf rx_tsc realtime_ns now_tsc =
           Some (0, session\<lparr> delay_resp_rx_count := delay_resp_rx_count session + 1 \<rparr>)"
    using ptp ty vl hd
    by (simp add: ptp_packet_process_def Let_def h PTP_MSG_DELAY_RESP_def PTP_MSG_SYNC_def)
  have t: "ptp_state_machine_tick hz env
             (session\<lparr> delay_resp_rx_count := delay_resp_rx_count session + 1 \<rparr>) current_tsc =
           (if current_tsc - last_state_change session > delay_resp_timeout_cycles hz
            then (session\<lparr> delay_resp_rx_count := delay_resp_rx_count session + 1,
                            sync_timeout_count := sync_timeout_count session + 1,
                            state := PTP_STATE_LISTENING,
                            last_state_change := current_tsc \<rparr>, None)
            else (session\<lparr> delay_resp_rx_count := delay_resp_rx_count session + 1 \<rparr>, None))"
    using st by (simp add: ptp_state_machine_tick_def)
  show ?thesis
    using h p t by blast
qed

theorem stale_delay_resp_keeps_state_witness:
  "ptp_is_ptp_packet ex_delay_resp_stale
   \<and> ptp_get_msg_type ex_delay_resp_stale = PTP_MSG_DELAY_RESP
   \<and> ptp_get_vlan_id ex_delay_resp_stale = rx_vlan_id ex_session
   \<and> get_ptp_header ex_delay_resp_stale = Some 18
   \<and> rte_be_to_cpu_16 (sequence_id (ptp_header_at (pkt ex_delay_resp_stale) 18)) \<noteq>
        last_delay_req_seq_id ex_session
   \<and> state ex_session = PTP_STATE_DELAY_REQ_SENT
   \<and> ptp_packet_process ex_hz ex_session ex_delay_resp_stale 100200000 1000000300000 100200000 =
        Some (0, ex_session\<lparr> delay_resp_rx_count := 1 \<rparr>)
   \<and> state (fst (ptp_state_machine_tick ex_hz ex_tx_ok
        (ex_session\<lparr> delay_resp_rx_count := 1 \<rparr>) 2100001000)) = PTP_STATE_DELAY_REQ_SENT
   \<and> state (fst (ptp_state_machine_tick ex_hz ex_tx_ok
        (ex_session\<lparr> delay_resp_rx_count := 1 \<rparr>) 2100001001)) = PTP_STATE_LISTENING"
proof -
  have h1: "ptp_is_ptp_packet ex_delay_resp_stale"
    and h2: "ptp_get_msg_type ex_delay_resp_stale = PTP_MSG_DELAY_RESP"
    and h3: "ptp_get_vlan_id ex_delay_resp_stale = rx_vlan_id ex_session"
    and h4: "get_ptp_header ex_delay_resp_stale = Some 18"
    and h5: "rte_be_to_cpu_16 (sequence_id (ptp_header_at (pkt ex_delay_resp_stale) 18)) \<noteq>
        last_delay_req_seq_id ex_session"
    and h6: "state ex_session = PTP_STATE_DELAY_REQ_SENT"
    by (simp_all add: ex_delay_resp_stale_parse ex_session_eq)
  have c: "delay_resp_rx_count ex_session + 1 = 1"
    "last_state_change ex_session = 100001000"
    by (simp_all add: ex_session_eq)
  have d: "delay_resp_timeout_cycles ex_hz = 2000000000"
    by (simp add: delay_resp_timeout_cycles_def ex_hz_def PTP_DELAY_RESP_TIMEOUT_SEC_def)
  note inst = stale_delay_resp_keeps_state [OF h1 h2 h3 h4 h5 h6, of ex_hz _ _ 100200000 _ _ ex_tx_ok]
  show ?thesis
    using h1 h2 h3 h4 h5 h6
      inst [of 100200000 1000000300000 "ptp_timestamp_at (pkt ex_delay_resp_stale) 52"
        "ptp_port_identity_at (pkt ex_delay_resp_stale) 62" 2100001000]
      inst [of 100200000 1000000300000 "ptp_timestamp_at (pkt ex_delay_resp_stale) 52"
        "ptp_port_identity_at (pkt ex_delay_resp_stale) 62" 2100001001]
    by (simp add: c d)
qed

text \<open>The claim as stated fails: the mismatched Delay\_Resp raises
  \<open>delay_resp_rx_count\<close> from 0 to 1.\<close>

theorem stale_delay_resp_is_counted:
  "state ex_session = PTP_STATE_DELAY_REQ_SENT
   \<and> ptp_is_ptp_packet ex_delay_resp_stale
   \<and> ptp_get_msg_type ex_delay_resp_stale = PTP_MSG_DELAY_RESP
   \<and> rte_be_to_cpu_16 (sequence_id (ptp_header_at (pkt ex_delay_resp_stale) 18)) \<noteq>
        last_delay_req_seq_id ex_session
   \<and> delay_resp_rx_count ex_session = 0
   \<and> map_option (\<lambda>r. delay_resp_rx_count (snd r))
        (ptp_packet_process ex_hz ex_session ex_delay_resp_stale
           100200000 1000000300000 100200000) = Some 1"
  by (simp add: ex_delay_resp_stale_parse ex_session_eq ptp_packet_process_def Let_def
      ptp_handle_delay_resp_def PTP_MSG_DELAY_RESP_def PTP_MSG_SYNC_def)


text \<open>
  Claim C7, as the code has it.  Every Sync that \<open>ptp_packet_process\<close> accepts for the
  session (PTP frame, message type Sync, VLAN of the session) increments \<open>sync_rx_count\<close>,
  the total of Sync messages received, whatever the state: the result is the session as
  \<open>ptp_handle_sync\<close> leaves it, with the counter raised by one.  The handler never touches
  the counter.  What depends on the state is the handler's result: in LISTENING, SYNCED
  and ERROR it stores t1 (\<open>t1_ns\<close>) and t2 (\<open>t2_tsc\<close>, \<open>t2_realtime_ns\<close>) and enters
  SYNC\_RECEIVED, with \<open>last_state_change\<close> set to the receive time; in every other state
  it leaves them alone.  In all states it records the master identity and domain, the
  Sync sequence id and \<open>last_sync_tsc\<close>.
\<close>

theorem sync_rx_count_every_sync:
  assumes ptp: "ptp_is_ptp_packet mbuf"
    and ty: "ptp_get_msg_type mbuf = PTP_MSG_SYNC"
    and vl: "ptp_get_vlan_id mbuf = rx_vlan_id session"
  shows "map_option fst (ptp_packet_process hz session mbuf rx_tsc realtime_ns now_tsc) =
           Some 0
       \<and> map_option (\<lambda>r. sync_rx_count (snd r))
           (ptp_packet_process hz session mbuf rx_tsc realtime_ns now_tsc) =
           Some (sync_rx_count session + 1)
       \<and> sync_rx_count (ptp_handle_sync session header timestamp rx_tsc realtime_ns) =
           sync_rx_count session
       \<and> (\<exists>hdr. get_ptp_header mbuf = Some hdr
            \<and> ptp_packet_process hz session mbuf rx_tsc realtime_ns now_tsc =
                Some (0, (ptp_handle_sync session (ptp_header_at (pkt mbuf) hdr)
                            (ptp_timestamp_at (pkt mbuf) (hdr + 34)) rx_tsc realtime_ns)
                         \<lparr> sync_rx_count := sync_rx_count session + 1 \<rparr>))
       \<and> (state session = PTP_STATE_LISTENING \<or> state session = PTP_STATE_SYNCED \<or>
          state session = PTP_STATE_ERROR \<longrightarrow>
            ptp_handle_sync session header timestamp rx_tsc realtime_ns =
              session\<lparr> master_port_id := source_port_id header,
                       master_domain := domain_number header,
                       sync_seq_id := rte_be_to_cpu_16 (sequence_id header),
                       last_sync_tsc := rx_tsc,
                       t1_ns := ptp_timestamp_to_ns timestamp,
                       t2_tsc := rx_tsc,
                       t2_realtime_ns := realtime_ns,
                       state := PTP_STATE_SYNC_RECEIVED,
                       last_state_change := rx_tsc \<rparr>)
       \<and> (state session \<noteq> PTP_STATE_LISTENING \<and> state session \<noteq> PTP_STATE_SYNCED \<and>
          state session \<noteq> PTP_STATE_ERROR \<longrightarrow>
            ptp_handle_sync session header timestamp rx_tsc realtime_ns =
              session\<lparr> master_port_id := source_port_id header,
                       master_domain := domain_number header,
                       sync_seq_id := rte_be_to_cpu_16 (sequence_id header),
                       last_sync_tsc := rx_tsc \<rparr>)"
proof -
  have hs: "sync_rx_count (ptp_handle_sync session header timestamp rx_tsc realtime_ns) =
           sync_rx_count session" for header timestamp
    by (simp add: ptp_handle_sync_def Let_def)
  obtain hdr where hd: "get_ptp_header mbuf = Some hdr"
    using ptp by (auto simp: ptp_is_ptp_packet_def get_ptp_header_def split: if_splits)
  have p: "ptp_packet_process hz session mbuf rx_tsc realtime_ns now_tsc =
             Some (0, (ptp_handle_sync session (ptp_header_at (pkt mbuf) hdr)
                         (ptp_timestamp_at (pkt mbuf) (hdr + 34)) rx_tsc realtime_ns)
                      \<lparr> sync_rx_count := sync_rx_count session + 1 \<rparr>)"
    using ptp ty vl hd
    by (simp add: ptp_packet_process_def Let_def hs PTP_MSG_SYNC_def)
  have ex: "\<exists>hdr. get_ptp_header mbuf = Some hdr
            \<and> ptp_packet_process hz session mbuf rx_tsc realtime_ns now_tsc =
                Some (0, (ptp_handle_sync session (ptp_header_at (pkt mbuf) hdr)
                            (ptp_timestamp_at (pkt mbuf) (hdr + 34)) rx_tsc realtime_ns)
                         \<lparr> sync_rx_count := sync_rx_count session + 1 \<rparr>)"
    using hd p by blast
  have c: "map_option fst (ptp_packet_process hz session mbuf rx_tsc realtime_ns now_tsc) =
           Some 0
       \<and> map_option (\<lambda>r. sync_rx_count (snd r))
           (ptp_packet_process hz session mbuf rx_tsc realtime_ns now_tsc) =
           Some (sync_rx_count session + 1)"
    by (simp add: p)
  have acc: "ptp_handle_sync session header timestamp rx_tsc realtime_ns =
              session\<lparr> master_port_id := source_port_id header,
                       master_domain := domain_number header,
                       sync_seq_id := rte_be_to_cpu_16 (sequence_id header),
                       last_sync_tsc := rx_tsc,
                       t1_ns := ptp_timestamp_to_ns timestamp,
                       t2_tsc := rx_tsc,
                       t2_realtime_ns := realtime_ns,
                       state := PTP_STATE_SYNC_RECEIVED,
                       last_state_change := rx_tsc \<rparr>"
    if "state session = PTP_STATE_LISTENING \<or> state session = PTP_STATE_SYNCED \<or>
        state session = PTP_STATE_ERROR"
    using that by (auto simp: ptp_handle_sync_def Let_def)
  have rej: "ptp_handle_sync session header timestamp rx_tsc realtime_ns =
              session\<lparr> master_port_id := source_port_id header,
                       master_domain := domain_number header,
                       sync_seq_id := rte_be_to_cpu_16 (sequence_id header),
                       last_sync_tsc := rx_tsc \<rparr>"
    if "state session \<noteq> PTP_STATE_LISTENING \<and> state session \<noteq> PTP_STATE_SYNCED \<and>
        state session \<noteq> PTP_STATE_ERROR"
    using that by (simp add: ptp_handle_sync_def Let_def)
  show ?thesis
    using c hs ex acc rej by blast
qed

lemma ex_session_synced_eq:
  "ex_session_synced =
     ex_session\<lparr> state := PTP_STATE_SYNCED, last_state_change := 100200000,
       t4_ns := 1000000200000, delay_ns := 50000, delay_resp_rx_count := 1,
       is_synced := True, sync_count := 1 \<rparr>"
  by (simp add: ex_session_synced_def ex_session_eq ex_hz_def state_defs parse_defs
      byteorder_defs ex_frame_defs Let_def upt_rec_numeral div_s64_def signed_divide_int_def)

lemma ex_sync_frame_timestamp:
  "ptp_timestamp_to_ns (ptp_timestamp_at (pkt ex_sync_frame) 52) = 1000000000000"
  by (simp add: ex_frame_defs parse_defs byteorder_defs ptp_timestamp_to_ns_def)

theorem sync_rx_count_every_sync_witness:
  "ptp_is_ptp_packet ex_sync_frame
   \<and> ptp_get_msg_type ex_sync_frame = PTP_MSG_SYNC
   \<and> ptp_get_vlan_id ex_sync_frame = rx_vlan_id ex_session
   \<and> ptp_get_vlan_id ex_sync_frame = rx_vlan_id ex_session_synced
   \<and> state ex_session = PTP_STATE_DELAY_REQ_SENT
   \<and> sync_rx_count ex_session = 1
   \<and> map_option (\<lambda>r. sync_rx_count (snd r))
        (ptp_packet_process ex_hz ex_session ex_sync_frame
           100100000 1000000250000 100100000) = Some 2
   \<and> state (ptp_handle_sync ex_session (ptp_header_at (pkt ex_sync_frame) 18)
        (ptp_timestamp_at (pkt ex_sync_frame) 52) 100100000 1000000250000) =
        PTP_STATE_DELAY_REQ_SENT
   \<and> t2_tsc (ptp_handle_sync ex_session (ptp_header_at (pkt ex_sync_frame) 18)
        (ptp_timestamp_at (pkt ex_sync_frame) 52) 100100000 1000000250000) = 1000
   \<and> last_state_change (ptp_handle_sync ex_session (ptp_header_at (pkt ex_sync_frame) 18)
        (ptp_timestamp_at (pkt ex_sync_frame) 52) 100100000 1000000250000) = 100001000
   \<and> state ex_session_synced = PTP_STATE_SYNCED
   \<and> sync_rx_count ex_session_synced = 1
   \<and> map_option (\<lambda>r. sync_rx_count (snd r))
        (ptp_packet_process ex_hz ex_session_synced ex_sync_frame
           1000001000 1001000050000 1000001000) = Some 2
   \<and> state (ptp_handle_sync ex_session_synced (ptp_header_at (pkt ex_sync_frame) 18)
        (ptp_timestamp_at (pkt ex_sync_frame) 52) 1000001000 1001000050000) =
        PTP_STATE_SYNC_RECEIVED
   \<and> t1_ns (ptp_handle_sync ex_session_synced (ptp_header_at (pkt ex_sync_frame) 18)
        (ptp_timestamp_at (pkt ex_sync_frame) 52) 1000001000 1001000050000) = 1000000000000
   \<and> t2_tsc (ptp_handle_sync ex_session_synced (ptp_header_at (pkt ex_sync_frame) 18)
        (ptp_timestamp_at (pkt ex_sync_frame) 52) 1000001000 1001000050000) = 1000001000
   \<and> t2_realtime_ns (ptp_handle_sync ex_session_synced (ptp_header_at (pkt ex_sync_frame) 18)
        (ptp_timestamp_at (pkt ex_sync_frame) 52) 1000001000 1001000050000) = 1001000050000
   \<and> last_state_change (ptp_handle_sync ex_session_synced
        (ptp_header_at (pkt ex_sync_frame) 18)
        (ptp_timestamp_at (pkt ex_sync_frame) 52) 1000001000 1001000050000) = 1000001000"
proof -
  have h1: "ptp_is_ptp_packet ex_sync_frame"
    and h2: "ptp_get_msg_type ex_sync_frame = PTP_MSG_SYNC"
    and h3: "ptp_get_vlan_id ex_sync_frame = rx_vlan_id ex_session"
    and h4: "ptp_get_vlan_id ex_sync_frame = rx_vlan_id ex_session_synced"
    by (simp_all add: ex_sync_frame_parse ex_session_synced_eq ex_session_eq)
  have c: "sync_rx_count ex_session = 1" "state ex_session = PTP_STATE_DELAY_REQ_SENT"
    "t2_tsc ex_session = 1000" "last_state_change ex_session = 100001000"
    by (simp_all add: ex_session_eq)
  have d: "sync_rx_count ex_session_synced = 1" "state ex_session_synced = PTP_STATE_SYNCED"
    by (simp_all add: ex_session_synced_eq ex_session_eq)
  show ?thesis
    using h1 h2 h3 h4 c d
      sync_rx_count_every_sync [OF h1 h2 h3, of ex_hz 100100000 1000000250000 100100000
        "ptp_header_at (pkt ex_sync_frame) 18" "ptp_timestamp_at (pkt ex_sync_frame) 52"]
      sync_rx_count_every_sync [OF h1 h2 h4, of ex_hz 1000001000 1001000050000 1000001000
        "ptp_header_at (pkt ex_sync_frame) 18" "ptp_timestamp_at (pkt ex_sync_frame) 52"]
    by (simp add: ex_sync_frame_timestamp)
qed

text \<open>The claim as stated fails: a Sync processed in DELAY\_REQ\_SENT, a state outside
  LISTENING, SYNCED and ERROR, increments \<open>sync_rx_count\<close>.\<close>

theorem sync_rx_count_mid_cycle:
  "state ex_session = PTP_STATE_DELAY_REQ_SENT
   \<and> ptp_is_ptp_packet ex_sync_frame
   \<and> ptp_get_msg_type ex_sync_frame = PTP_MSG_SYNC
   \<and> map_option fst (ptp_packet_process ex_hz ex_session ex_sync_frame
        100100000 1000000250000 100100000) = Some 0
   \<and> sync_rx_count ex_session = 1
   \<and> map_option (\<lambda>r. sync_rx_count (snd r)) (ptp_packet_process ex_hz ex_session
        ex_sync_frame 100100000 1000000250000 100100000) = Some 2"
  by (simp add: ex_sync_frame_parse ex_session_eq ptp_packet_process_def Let_def
      ptp_handle_sync_def PTP_MSG_SYNC_def)

subsection \<open>The Delay\_Req frame\<close>

lemmas build_defs = build_delay_req_def mem_store_def mem_set_def store16_def
  rte_cpu_to_be_16_def rte_bswap16_def sizeof_rte_ether_hdr_def sizeof_vlan_hdr_def
  PTP_MSG_LENGTH_PADDED_def PTP_ETHERTYPE_def RTE_ETHER_TYPE_VLAN_def ptp_src_mac_def
  PTP_MSG_DELAY_REQ_def PTP_VERSION_def PTP_DEFAULT_DOMAIN_def PTP_CTRL_DELAY_REQ_def
  PTP_LOG_DELAY_REQ_INT_def

lemma length_bytes_of_ptp_port_identity:
  "length (bytes_of_ptp_port_identity p) \<le> 10"
  by (simp add: bytes_of_ptp_port_identity_def store16_def)

lemma build_delay_req_zero_tail:
  assumes "52 \<le> i" "i < 124"
  shows "build_delay_req session mem0 i = 0"
proof (cases "i < 62")
  case True
  with assms show ?thesis
    by (simp add: build_defs Let_def)
next
  case False
  with assms length_bytes_of_ptp_port_identity [of "our_port_id session"] show ?thesis
    by (simp add: build_defs Let_def)
qed

text \<open>
  Claim C5.  For a session with \<open>tx_vlan_id = 97\<close>, \<open>tx_vl_idx = 4420\<close> and
  \<open>delay_req_seq_id = 5\<close> the frame built is: destination MAC 03:00:00:00:11:44, source
  MAC 02:00:00:00:00:20, TPID 81 00, TCI 00 61, inner EtherType 88 F7; PTP byte 0 = 0x01,
  message length 00 6A, domain 0x0A, flags 01 02, sequence id 00 05, control 01,
  logMessageInterval 0xFF; the origin timestamp (PTP bytes 34..43) and the padding (PTP
  bytes 44..105) are zero; the PTP payload has 106 bytes after the 18 bytes of Ethernet
  and VLAN header.  The PTP header starts at offset 18 of the frame.  Nothing depends on
  what the buffer held before.
\<close>

theorem delay_req_golden_frame:
  assumes "tx_vlan_id session = 97" "tx_vl_idx session = 4420" "delay_req_seq_id session = 5"
  shows "map (build_delay_req session mem0) [0..<6] = [0x03, 0x00, 0x00, 0x00, 0x11, 0x44]
    \<and> map (build_delay_req session mem0) [6..<12] = [0x02, 0x00, 0x00, 0x00, 0x00, 0x20]
    \<and> map (build_delay_req session mem0) [12..<14] = [0x81, 0x00]
    \<and> map (build_delay_req session mem0) [14..<16] = [0x00, 0x61]
    \<and> map (build_delay_req session mem0) [16..<18] = [0x88, 0xF7]
    \<and> build_delay_req session mem0 18 = 0x01
    \<and> map (build_delay_req session mem0) [20..<22] = [0x00, 0x6A]
    \<and> build_delay_req session mem0 22 = 0x0A
    \<and> map (build_delay_req session mem0) [24..<26] = [0x01, 0x02]
    \<and> map (build_delay_req session mem0) [48..<50] = [0x00, 0x05]
    \<and> build_delay_req session mem0 50 = 0x01
    \<and> build_delay_req session mem0 51 = 0xFF
    \<and> (\<forall>i. 18 + 34 \<le> i \<and> i < 18 + 44 \<longrightarrow> build_delay_req session mem0 i = 0)
    \<and> (\<forall>i. 18 + 44 \<le> i \<and> i < 18 + 106 \<longrightarrow> build_delay_req session mem0 i = 0)
    \<and> (tx_mbuf_pool env \<and> pktmbuf_alloc env = Some mem0 \<and> pktmbuf_append env \<and> nb_tx env = 1
         \<longrightarrow> ret (ptp_send_delay_req env session) = 0
           \<and> tx_frame (ptp_send_delay_req env session) =
               Some \<lparr> data_len = 18 + 106, pkt = build_delay_req session mem0, l2_len = 18,
                      ol_flags = RTE_MBUF_F_TX_VLAN, vlan_tci = 97 \<rparr>)"
proof -
  note len = length_bytes_of_ptp_port_identity [of "our_port_id session"]
  have fields:
    "map (build_delay_req session mem0) [0..<6] = [0x03, 0x00, 0x00, 0x00, 0x11, 0x44]"
    "map (build_delay_req session mem0) [6..<12] = [0x02, 0x00, 0x00, 0x00, 0x00, 0x20]"
    "map (build_delay_req session mem0) [12..<14] = [0x81, 0x00]"
    "map (build_delay_req session mem0) [14..<16] = [0x00, 0x61]"
    "map (build_delay_req session mem0) [16..<18] = [0x88, 0xF7]"
    "build_delay_req session mem0 18 = 0x01"
    "map (build_delay_req session mem0) [20..<22] = [0x00, 0x6A]"
    "build_delay_req session mem0 22 = 0x0A"
    "map (build_delay_req session mem0) [24..<26] = [0x01, 0x02]"
    "map (build_delay_req session mem0) [48..<50] = [0x00, 0x05]"
    "build_delay_req session mem0 50 = 0x01"
    "build_delay_req session mem0 51 = 0xFF"
    using assms len by (simp_all add: build_defs Let_def upt_rec_numeral upt_conv_Cons)
  have zeros: "\<forall>i. 18 + 34 \<le> i \<and> i < 18 + 44 \<longrightarrow> build_delay_req session mem0 i = 0"
    "\<forall>i. 18 + 44 \<le> i \<and> i < 18 + 106 \<longrightarrow> build_delay_req session mem0 i = 0"
    by (simp_all add: build_delay_req_zero_tail)
  have send: "tx_mbuf_pool env \<and> pktmbuf_alloc env = Some mem0 \<and> pktmbuf_append env \<and> nb_tx env = 1
         \<longrightarrow> ret (ptp_send_delay_req env session) = 0
           \<and> tx_frame (ptp_send_delay_req env session) =
               Some \<lparr> data_len = 18 + 106, pkt = build_delay_req session mem0, l2_len = 18,
                      ol_flags = RTE_MBUF_F_TX_VLAN, vlan_tci = 97 \<rparr>"
    using assms
    by (simp add: ptp_send_delay_req_def Let_def sizeof_rte_ether_hdr_def sizeof_vlan_hdr_def
        PTP_MSG_LENGTH_PADDED_def)
  show ?thesis
    using fields zeros send by blast
qed


theorem delay_req_golden_frame_witness:
  "tx_vlan_id ex_session_seq5 = 97 \<and> tx_vl_idx ex_session_seq5 = 4420
   \<and> delay_req_seq_id ex_session_seq5 = 5
   \<and> tx_mbuf_pool ex_tx_ok \<and> pktmbuf_alloc ex_tx_ok = Some (\<lambda>i. 0xEE)
   \<and> pktmbuf_append ex_tx_ok \<and> nb_tx ex_tx_ok = 1
   \<and> ret (ptp_send_delay_req ex_tx_ok ex_session_seq5) = 0
   \<and> map_option data_len (tx_frame (ptp_send_delay_req ex_tx_ok ex_session_seq5)) = Some 124
   \<and> map (build_delay_req ex_session_seq5 (\<lambda>i. 0xEE)) [0..<124] =
       [0x03, 0x00, 0x00, 0x00, 0x11, 0x44,  0x02, 0x00, 0x00, 0x00, 0x00, 0x20,
        0x81, 0x00,  0x00, 0x61,  0x88, 0xF7,
        0x01, 0x02,  0x00, 0x6A,  0x0A, 0x00,  0x01, 0x02,
        0, 0, 0, 0, 0, 0, 0, 0,  0, 0, 0, 0,
        0x2C, 0x1A, 0, 0, 0, 0, 0, 0,  0, 0,
        0x00, 0x05,  0x01,  0xFF,
        0, 0, 0, 0, 0, 0, 0, 0, 0, 0,
        0, 0, 0, 0, 0, 0, 0, 0, 0, 0, 0, 0, 0, 0, 0, 0,
        0, 0, 0, 0, 0, 0, 0, 0, 0, 0, 0, 0, 0, 0, 0, 0,
        0, 0, 0, 0, 0, 0, 0, 0, 0, 0, 0, 0, 0, 0, 0, 0,
        0, 0, 0, 0, 0, 0, 0, 0, 0, 0, 0, 0, 0, 0]"
proof -
  have h1: "tx_vlan_id ex_session_seq5 = 97" and h2: "tx_vl_idx ex_session_seq5 = 4420"
    and h3: "delay_req_seq_id ex_session_seq5 = 5"
    by (simp_all add: ex_session_seq5_def ptp_session_init_def ptp_init_port_identity_def
        zero_session_def Let_def)
  have e: "tx_mbuf_pool ex_tx_ok" "pktmbuf_alloc ex_tx_ok = Some (\<lambda>i. 0xEE)"
    "pktmbuf_append ex_tx_ok" "nb_tx ex_tx_ok = 1"
    by (simp_all add: ex_tx_ok_def)
  have id: "our_port_id ex_session_seq5 =
      \<lparr> clock_identity = [0x2C, 0x1A, 0, 0, 0, 0, 0, 0], port_number = 0 \<rparr>"
    by (simp add: ex_session_seq5_def ptp_session_init_def ptp_init_port_identity_def
        zero_session_def Let_def rte_cpu_to_be_16_def rte_bswap16_def)
  have bytes: "map (build_delay_req ex_session_seq5 (\<lambda>i. 0xEE)) [0..<124] =
       [0x03, 0x00, 0x00, 0x00, 0x11, 0x44,  0x02, 0x00, 0x00, 0x00, 0x00, 0x20,
        0x81, 0x00,  0x00, 0x61,  0x88, 0xF7,
        0x01, 0x02,  0x00, 0x6A,  0x0A, 0x00,  0x01, 0x02,
        0, 0, 0, 0, 0, 0, 0, 0,  0, 0, 0, 0,
        0x2C, 0x1A, 0, 0, 0, 0, 0, 0,  0, 0,
        0x00, 0x05,  0x01,  0xFF,
        0, 0, 0, 0, 0, 0, 0, 0, 0, 0,
        0, 0, 0, 0, 0, 0, 0, 0, 0, 0, 0, 0, 0, 0, 0, 0,
        0, 0, 0, 0, 0, 0, 0, 0, 0, 0, 0, 0, 0, 0, 0, 0,
        0, 0, 0, 0, 0, 0, 0, 0, 0, 0, 0, 0, 0, 0, 0, 0,
        0, 0, 0, 0, 0, 0, 0, 0, 0, 0, 0, 0, 0, 0]"
    using h1 h2 h3 id
    by (simp add: build_defs Let_def bytes_of_ptp_port_identity_def upt_rec_numeral
        upt_conv_Cons)
  show ?thesis
    using h1 h2 h3 e bytes delay_req_golden_frame [OF h1 h2 h3, of "\<lambda>i. 0xEE" ex_tx_ok]
    by simp
qed

subsection \<open>The Delay\_Req sequence id\<close>

lemma build_delay_req_seq_bytes:
  "build_delay_req session mem0 48 = ucast (rte_cpu_to_be_16 (delay_req_seq_id session))"
  "build_delay_req session mem0 49 =
     ucast (drop_bit 8 (rte_cpu_to_be_16 (delay_req_seq_id session)))"
  using length_bytes_of_ptp_port_identity [of "our_port_id session"]
  by (simp_all add: build_delay_req_def mem_store_def mem_set_def store16_def Let_def
      sizeof_rte_ether_hdr_def sizeof_vlan_hdr_def PTP_MSG_LENGTH_PADDED_def ptp_src_mac_def)

lemma frame_sequence_id_build:
  "frame_sequence_id \<lparr> data_len = n, pkt = build_delay_req session mem0, l2_len = l,
                        ol_flags = f, vlan_tci = v \<rparr> = delay_req_seq_id session"
proof -
  have "mem_load16 (build_delay_req session mem0) 48 =
          rte_cpu_to_be_16 (delay_req_seq_id session)"
    unfolding mem_load16_def
    by (rule load16_store16) (simp add: store16_def build_delay_req_seq_bytes)
  then show ?thesis
    by (simp add: frame_sequence_id_def ptp_header_at_def sizeof_ptp_eth_frame_def
        rte_be_to_cpu_16_def rte_cpu_to_be_16_def rte_bswap16_involution)
qed

lemma ptp_send_delay_req_seq:
  "(case tx_frame (ptp_send_delay_req env session) of
      None \<Rightarrow> delay_req_seq_id (session_after (ptp_send_delay_req env session)) =
                delay_req_seq_id session
    | Some frame \<Rightarrow>
        frame_sequence_id frame = delay_req_seq_id session \<and>
        delay_req_seq_id (session_after (ptp_send_delay_req env session)) =
          delay_req_seq_id session + 1)"
  by (simp add: ptp_send_delay_req_def Let_def frame_sequence_id_build split: option.split)

lemma ptp_packet_process_seq:
  "ptp_packet_process hz session mbuf rx_tsc realtime_ns now_tsc = Some (status, session') \<Longrightarrow>
     delay_req_seq_id session' = delay_req_seq_id session"
  by (auto simp: ptp_packet_process_def ptp_handle_sync_def ptp_handle_delay_resp_def
      ptp_calculate_offset_delay_def tsc_to_ns_def Let_def split: option.splits if_splits)

lemma ptp_state_machine_tick_seq:
  "(case snd (ptp_state_machine_tick hz env session current_tsc) of
      None \<Rightarrow> delay_req_seq_id (fst (ptp_state_machine_tick hz env session current_tsc)) =
                delay_req_seq_id session
    | Some frame \<Rightarrow>
        frame_sequence_id frame = delay_req_seq_id session \<and>
        delay_req_seq_id (fst (ptp_state_machine_tick hz env session current_tsc)) =
          delay_req_seq_id session + 1)"
  using ptp_send_delay_req_seq [of env session]
  by (cases "state session")
    (auto simp: ptp_state_machine_tick_def Let_def split: option.splits)

lemma session_step_seq:
  assumes "session_step hz session ev = Some (session', sent)"
  shows "map frame_sequence_id sent =
           map (\<lambda>k. delay_req_seq_id session + of_nat k) [0..<length sent]
       \<and> delay_req_seq_id session' = delay_req_seq_id session + of_nat (length sent)"
proof (cases ev)
  case (Rx mbuf rx_tsc realtime_ns now_tsc)
  then show ?thesis
    using assms ptp_packet_process_seq [of hz session mbuf rx_tsc realtime_ns now_tsc]
    by (auto split: option.splits)
next
  case (Tick current_tsc env)
  then show ?thesis
    using assms ptp_state_machine_tick_seq [of hz env session current_tsc]
    by (auto split: prod.splits option.splits)
qed

text \<open>
  Claim C4, as the code has it.  Whatever a session receives and whenever it is ticked,
  the Delay\_Req frames it transmits carry consecutive sequence ids modulo 2^16: the k-th
  frame (from 0) carries the id the session started with plus k, in 16-bit arithmetic,
  and the counter afterwards is the start plus the number of frames sent.  The counter
  is a plain \<open>uint16_t\<close> increment: a new session starts at 0 and 65535 is followed
  by 0.
\<close>

theorem delay_req_seq_consecutive:
  "map frame_sequence_id (snd (session_run hz session evs)) =
     map (\<lambda>k. delay_req_seq_id session + of_nat k)
       [0..<length (snd (session_run hz session evs))]
   \<and> delay_req_seq_id (fst (session_run hz session evs)) =
       delay_req_seq_id session + of_nat (length (snd (session_run hz session evs)))"
proof (induction evs arbitrary: session)
  case Nil
  show ?case by simp
next
  case (Cons ev evs)
  show ?case
  proof (cases "session_step hz session ev")
    case None
    then show ?thesis by simp
  next
    case (Some r)
  obtain s1 sent1 where r: "r = (s1, sent1)"
    by (cases r)
  have step: "session_step hz session ev = Some (s1, sent1)"
    using Some r by simp
  obtain s2 sent2 where run: "session_run hz s1 evs = (s2, sent2)"
    by (cases "session_run hz s1 evs")
  from session_step_seq [OF step]
  have a: "map frame_sequence_id sent1 =
             map (\<lambda>k. delay_req_seq_id session + of_nat k) [0..<length sent1]"
    and b: "delay_req_seq_id s1 = delay_req_seq_id session + of_nat (length sent1)"
    by simp_all
  from Cons.IH [of s1] run
  have c: "map frame_sequence_id sent2 =
             map (\<lambda>k. delay_req_seq_id s1 + of_nat k) [0..<length sent2]"
    and d: "delay_req_seq_id s2 = delay_req_seq_id s1 + of_nat (length sent2)"
    by simp_all
  have e: "map (\<lambda>k. delay_req_seq_id session + of_nat k) [0..<length sent1 + length sent2] =
           map (\<lambda>k. delay_req_seq_id session + of_nat k) [0..<length sent1] @
           map (\<lambda>k. delay_req_seq_id s1 + of_nat k) [0..<length sent2]"
  proof -
    have "[length sent1..<length sent1 + length sent2] =
            map (\<lambda>i. i + length sent1) [0..<length sent2]"
      by (simp add: map_add_upt add.commute)
    then have "map (\<lambda>k. delay_req_seq_id session + of_nat k)
                 [length sent1..<length sent1 + length sent2] =
               map (\<lambda>k. delay_req_seq_id s1 + of_nat k) [0..<length sent2]"
      by (simp add: b o_def ac_simps)
    then show ?thesis
      by (simp add: upt_add_eq_append [of 0])
  qed
  show ?thesis
    by (simp add: step run a c d e b add.assoc)
  qed
qed


theorem delay_req_seq_consecutive_witness:
  "map frame_sequence_id
     (snd (session_run ex_hz (ptp_session_init ex_hz 0 1 0 97 97 4420)
        [Tick 0 ex_tx_ok, Rx ex_sync_frame 1000 1000000050000 1000,
         Tick 100001000 ex_tx_ok])) = [0]
   \<and> delay_req_seq_id
     (fst (session_run ex_hz (ptp_session_init ex_hz 0 1 0 97 97 4420)
        [Tick 0 ex_tx_ok, Rx ex_sync_frame 1000 1000000050000 1000,
         Tick 100001000 ex_tx_ok])) = 1"
proof -
  let ?s0 = "ptp_session_init ex_hz 0 1 0 97 97 4420"
  let ?evs = "[Tick 0 ex_tx_ok, Rx ex_sync_frame 1000 1000000050000 1000,
         Tick 100001000 ex_tx_ok]"
  have n: "length (snd (session_run ex_hz ?s0 ?evs)) = 1"
    by (simp add: ex_hz_def ptp_session_init_def zero_session_def zero_port_identity_def
      ptp_init_port_identity_def ex_tx_ok_def state_defs ex_sync_frame_parse Let_def
      PTP_MSG_SYNC_def)
  have z: "delay_req_seq_id ?s0 = 0"
    by (simp add: ptp_session_init_def zero_session_def ptp_init_port_identity_def Let_def)
  show ?thesis
    using delay_req_seq_consecutive [of ex_hz ?s0 ?evs] unfolding n z by simp
qed
text \<open>The claim as stated fails: the sequence id does take the value zero when it
  wraps.  A session whose counter is 65535 sends ids 65535 and then 0.\<close>

theorem delay_req_seq_wraps_to_zero:
  "delay_req_seq_id ex_session_wrap = 0xFFFF
   \<and> map frame_sequence_id (snd (session_run ex_hz ex_session_wrap ex_events_wrap)) =
       [0xFFFF, 0]"
  by (simp add: ex_session_wrap_def ex_events_wrap_def ex_session_eq ex_hz_def ex_tx_ok_def
      state_defs ex_sync_frame_parse Let_def frame_sequence_id_build
      PTP_MSG_SYNC_def)

subsection \<open>Health monitor: classification of responses\<close>

lemmas health_consts =
  HEALTH_UDP_PAYLOAD_OFFSET_def HEALTH_ETH_HEADER_SIZE_def HEALTH_IP_HEADER_SIZE_def
  HEALTH_UDP_HEADER_SIZE_def HEALTH_DEVICE_HEADER_SIZE_def HEALTH_MINI_HEADER_SIZE_def
  HEALTH_PORT_DATA_SIZE_def HEALTH_MAX_PORTS_def HEALTH_PKT_SIZE_WITH_HEADER_def
  HEALTH_PKT_SIZE_8_PORTS_def HEALTH_PKT_SIZE_3_PORTS_def STATUS_ENABLE_MANAGER_def
  STATUS_ENABLE_ASSISTANT_def HEALTH_MONITOR_EXPECTED_RESPONSES_def DEV_OFF_STATUS_ENABLE_def
  MCU_OFF_FO_TRANS_TEMP_def

lemma parse_fpga_packet_last_fpga_type:
  "last_fpga_type (parse_fpga_packet packet h n off target cycle) = last_fpga_type cycle"
  by (cases target) (simp_all add: parse_fpga_packet_def Let_def)

lemma health_parse_response_last_fpga_type:
  "last_fpga_type (health_parse_response packet len cycle) = last_fpga_type cycle \<or>
   (len = HEALTH_PKT_SIZE_WITH_HEADER \<and>
    (packet (HEALTH_UDP_PAYLOAD_OFFSET + DEV_OFF_STATUS_ENABLE) = STATUS_ENABLE_ASSISTANT \<or>
     packet (HEALTH_UDP_PAYLOAD_OFFSET + DEV_OFF_STATUS_ENABLE) = STATUS_ENABLE_MANAGER))"
  by (simp add: health_parse_response_def Let_def parse_fpga_packet_last_fpga_type)

lemma receive_last_fpga_type:
  "last_fpga_type (receive_health_responses frames cycle) = last_fpga_type cycle \<or>
   (\<exists>(p, l) \<in> set frames.
      l = HEALTH_PKT_SIZE_WITH_HEADER \<and> is_health_response p l \<and>
      (p (HEALTH_UDP_PAYLOAD_OFFSET + DEV_OFF_STATUS_ENABLE) = STATUS_ENABLE_ASSISTANT \<or>
       p (HEALTH_UDP_PAYLOAD_OFFSET + DEV_OFF_STATUS_ENABLE) = STATUS_ENABLE_MANAGER))"
proof (induction frames arbitrary: cycle)
  case Nil
  show ?case by simp
next
  case (Cons f frames)
  obtain packet len where f: "f = (packet, len)" by (cases f)
  show ?case
  proof (cases "total_responses_received cycle < HEALTH_MONITOR_EXPECTED_RESPONSES")
    case False
    then show ?thesis by (simp add: f)
  next
    case True
    show ?thesis
    proof (cases "is_health_response packet len")
      case False
      with True Cons.IH [of cycle] show ?thesis by (auto simp: f)
    next
      case acc: True
      from health_parse_response_last_fpga_type [of packet len cycle]
      show ?thesis
      proof
        assume "last_fpga_type (health_parse_response packet len cycle) = last_fpga_type cycle"
        with True acc Cons.IH [of "health_parse_response packet len cycle"]
        show ?thesis by (auto simp: f)
      next
        assume "len = HEALTH_PKT_SIZE_WITH_HEADER \<and>
          (packet (HEALTH_UDP_PAYLOAD_OFFSET + DEV_OFF_STATUS_ENABLE) = STATUS_ENABLE_ASSISTANT \<or>
           packet (HEALTH_UDP_PAYLOAD_OFFSET + DEV_OFF_STATUS_ENABLE) = STATUS_ENABLE_MANAGER)"
        with acc show ?thesis by (auto simp: f)
      qed
    qed
  qed
qed

lemma receive_append1:
  "receive_health_responses (frames @ [f]) cycle =
     receive_health_responses [f] (receive_health_responses frames cycle)"
proof (induction frames arbitrary: cycle)
  case Nil
  show ?case by simp
next
  case (Cons g frames)
  obtain p l where g: "g = (p, l)" by (cases g)
  obtain q m where f: "f = (q, m)" by (cases f)
  show ?case
    using Cons.IH by (simp add: g f)
qed

lemma continuation_discarded:
  assumes "len = HEALTH_PKT_SIZE_8_PORTS \<or> len = HEALTH_PKT_SIZE_3_PORTS"
    and "last_fpga_type cycle \<noteq> STATUS_ENABLE_ASSISTANT"
    and "last_fpga_type cycle \<noteq> STATUS_ENABLE_MANAGER"
  shows "health_parse_response packet len cycle = cycle"
  using assms by (auto simp: health_parse_response_def Let_def health_consts)


lemma parse_ports_frame:
  "packets_received (parse_ports data port_ptr n fpga) = packets_received fpga
   \<and> device_info_valid (parse_ports data port_ptr n fpga) = device_info_valid fpga
   \<and> device (parse_ports data port_ptr n fpga) = device fpga"
  by (induction n arbitrary: port_ptr fpga) (simp_all add: Let_def)

lemma parse_fpga_packet_assistant:
  "manager (parse_fpga_packet packet h n off Target_Assistant cycle) = manager cycle
   \<and> mcu (parse_fpga_packet packet h n off Target_Assistant cycle) = mcu cycle
   \<and> total_responses_received (parse_fpga_packet packet h n off Target_Assistant cycle) =
       total_responses_received cycle + 1
   \<and> packets_received (assistant (parse_fpga_packet packet h n off Target_Assistant cycle)) =
       packets_received (assistant cycle) + 1"
  by (simp add: parse_fpga_packet_def Let_def parse_ports_frame)

lemma parse_fpga_packet_manager:
  "assistant (parse_fpga_packet packet h n off Target_Manager cycle) = assistant cycle
   \<and> mcu (parse_fpga_packet packet h n off Target_Manager cycle) = mcu cycle
   \<and> total_responses_received (parse_fpga_packet packet h n off Target_Manager cycle) =
       total_responses_received cycle + 1
   \<and> packets_received (manager (parse_fpga_packet packet h n off Target_Manager cycle)) =
       packets_received (manager cycle) + 1"
  by (simp add: parse_fpga_packet_def Let_def parse_ports_frame)

lemma ex_cycle_assistant_facts:
  "last_fpga_type ex_cycle_assistant = STATUS_ENABLE_ASSISTANT"
  "total_responses_received ex_cycle_assistant = 1"
  "packets_received (assistant ex_cycle_assistant) = 1"
  by (simp_all add: ex_cycle_assistant_def health_parse_response_def Let_def health_consts
      ex_fpga_packet_def parse_fpga_packet_last_fpga_type parse_fpga_packet_assistant
      zero_cycle_def zero_fpga_data_def)

lemma parse_2byte_be_ex:
  "parse_2byte_be ex_mcu_packet (42 + 48) = 3000"
  by (simp add: parse_2byte_be_def ex_mcu_packet_def)

text \<open>
  Claim C8.  A 1083-byte or 438-byte continuation frame is attributed to an accumulator
  only through the marker \<open>last_fpga_type\<close>: with the marker on ASSISTANT it counts for the
  assistant and leaves the manager alone, with the marker on MANAGER the reverse, and
  with any other marker the frame is discarded and the cycle (both accumulators, the MCU
  record, the response count, the marker) is exactly what it was.  Within a collection
  cycle, which starts from the zeroed cycle, a continuation frame that changes anything
  was preceded in that cycle by an accepted 1187-byte frame that identified an FPGA; in
  particular a continuation frame that arrives when no 1187-byte frame has been received
  changes nothing.
\<close>

theorem continuation_needs_full_frame:
  assumes cont: "len = HEALTH_PKT_SIZE_8_PORTS \<or> len = HEALTH_PKT_SIZE_3_PORTS"
  shows "(last_fpga_type cycle \<noteq> STATUS_ENABLE_ASSISTANT \<and>
          last_fpga_type cycle \<noteq> STATUS_ENABLE_MANAGER \<longrightarrow>
            health_parse_response packet len cycle = cycle)
    \<and> (last_fpga_type cycle = STATUS_ENABLE_ASSISTANT \<longrightarrow>
          manager (health_parse_response packet len cycle) = manager cycle \<and>
          packets_received (assistant (health_parse_response packet len cycle)) =
            packets_received (assistant cycle) + 1 \<and>
          total_responses_received (health_parse_response packet len cycle) =
            total_responses_received cycle + 1)
    \<and> (last_fpga_type cycle = STATUS_ENABLE_MANAGER \<longrightarrow>
          assistant (health_parse_response packet len cycle) = assistant cycle \<and>
          packets_received (manager (health_parse_response packet len cycle)) =
            packets_received (manager cycle) + 1 \<and>
          total_responses_received (health_parse_response packet len cycle) =
            total_responses_received cycle + 1)
    \<and> (receive_health_responses (frames @ [(packet, len)]) zero_cycle \<noteq>
          receive_health_responses frames zero_cycle \<longrightarrow>
        (\<exists>(p, l) \<in> set frames.
           l = HEALTH_PKT_SIZE_WITH_HEADER \<and> is_health_response p l \<and>
           (p (HEALTH_UDP_PAYLOAD_OFFSET + DEV_OFF_STATUS_ENABLE) = STATUS_ENABLE_ASSISTANT \<or>
            p (HEALTH_UDP_PAYLOAD_OFFSET + DEV_OFF_STATUS_ENABLE) = STATUS_ENABLE_MANAGER)))
    \<and> ((\<forall>(p, l) \<in> set frames. l \<noteq> HEALTH_PKT_SIZE_WITH_HEADER) \<longrightarrow>
          receive_health_responses (frames @ [(packet, len)]) zero_cycle =
          receive_health_responses frames zero_cycle)"
proof -
  let ?c = "receive_health_responses frames zero_cycle"
  have discard: "health_parse_response packet len c = c"
    if "last_fpga_type c \<noteq> STATUS_ENABLE_ASSISTANT" "last_fpga_type c \<noteq> STATUS_ENABLE_MANAGER"
    for c
    using cont that by (rule continuation_discarded)
  have ast: "manager (health_parse_response packet len cycle) = manager cycle \<and>
          packets_received (assistant (health_parse_response packet len cycle)) =
            packets_received (assistant cycle) + 1 \<and>
          total_responses_received (health_parse_response packet len cycle) =
            total_responses_received cycle + 1"
    if "last_fpga_type cycle = STATUS_ENABLE_ASSISTANT"
    using cont that
    by (auto simp: health_parse_response_def Let_def parse_fpga_packet_assistant health_consts)
  have mgr: "assistant (health_parse_response packet len cycle) = assistant cycle \<and>
          packets_received (manager (health_parse_response packet len cycle)) =
            packets_received (manager cycle) + 1 \<and>
          total_responses_received (health_parse_response packet len cycle) =
            total_responses_received cycle + 1"
    if "last_fpga_type cycle = STATUS_ENABLE_MANAGER"
    using cont that
    by (auto simp: health_parse_response_def Let_def parse_fpga_packet_manager health_consts)
  have need: "\<exists>(p, l) \<in> set frames.
           l = HEALTH_PKT_SIZE_WITH_HEADER \<and> is_health_response p l \<and>
           (p (HEALTH_UDP_PAYLOAD_OFFSET + DEV_OFF_STATUS_ENABLE) = STATUS_ENABLE_ASSISTANT \<or>
            p (HEALTH_UDP_PAYLOAD_OFFSET + DEV_OFF_STATUS_ENABLE) = STATUS_ENABLE_MANAGER)"
    if ne: "receive_health_responses (frames @ [(packet, len)]) zero_cycle \<noteq> ?c"
  proof -
    from ne have "health_parse_response packet len ?c \<noteq> ?c"
      by (auto simp: receive_append1 split: if_splits)
    with discard [of ?c]
    have "last_fpga_type ?c = STATUS_ENABLE_ASSISTANT \<or> last_fpga_type ?c = STATUS_ENABLE_MANAGER"
      by blast
    then have "last_fpga_type ?c \<noteq> last_fpga_type zero_cycle"
      by (auto simp: zero_cycle_def health_consts)
    with receive_last_fpga_type [of frames zero_cycle] show ?thesis
      by blast
  qed
  have none: "receive_health_responses (frames @ [(packet, len)]) zero_cycle = ?c"
    if "\<forall>(p, l) \<in> set frames. l \<noteq> HEALTH_PKT_SIZE_WITH_HEADER"
    using need that by fastforce
  show ?thesis
    using discard [of cycle] ast mgr need none by blast
qed


theorem continuation_needs_full_frame_witness:
  "(1083 = HEALTH_PKT_SIZE_8_PORTS \<or> 1083 = HEALTH_PKT_SIZE_3_PORTS)
   \<and> last_fpga_type zero_cycle \<noteq> STATUS_ENABLE_ASSISTANT
   \<and> last_fpga_type zero_cycle \<noteq> STATUS_ENABLE_MANAGER
   \<and> health_parse_response (ex_fpga_packet 0x00) 1083 zero_cycle = zero_cycle
   \<and> 92 \<noteq> HEALTH_PKT_SIZE_WITH_HEADER
   \<and> receive_health_responses ([(ex_mcu_packet, 92)] @ [(ex_fpga_packet 0x00, 1083)]) zero_cycle =
       receive_health_responses [(ex_mcu_packet, 92)] zero_cycle
   \<and> last_fpga_type ex_cycle_assistant = STATUS_ENABLE_ASSISTANT
   \<and> manager (health_parse_response (ex_fpga_packet 0x00) 1083 ex_cycle_assistant) =
       manager ex_cycle_assistant
   \<and> packets_received
        (assistant (health_parse_response (ex_fpga_packet 0x00) 1083 ex_cycle_assistant)) = 2
   \<and> total_responses_received
        (health_parse_response (ex_fpga_packet 0x00) 1083 ex_cycle_assistant) = 2"
proof -
  have h: "1083 = HEALTH_PKT_SIZE_8_PORTS \<or> 1083 = HEALTH_PKT_SIZE_3_PORTS"
    by (simp add: health_consts)
  have z: "last_fpga_type zero_cycle \<noteq> STATUS_ENABLE_ASSISTANT"
    "last_fpga_type zero_cycle \<noteq> STATUS_ENABLE_MANAGER"
    by (simp_all add: zero_cycle_def health_consts)
  have f: "\<forall>(p, l) \<in> set [(ex_mcu_packet, 92)]. l \<noteq> HEALTH_PKT_SIZE_WITH_HEADER"
    by (simp add: health_consts)
  show ?thesis
    using h z f ex_cycle_assistant_facts
      continuation_needs_full_frame [OF h, of zero_cycle "ex_fpga_packet 0x00" "[(ex_mcu_packet, 92)]"]
      continuation_needs_full_frame [OF h, of ex_cycle_assistant "ex_fpga_packet 0x00" "[(ex_mcu_packet, 92)]"]
    by simp
qed

text \<open>
  Claim C10.  A frame whose length is none of 1187, 1083 and 438 is parsed as an MCU
  record, which sets \<open>mcu.valid\<close> and increments \<open>total_responses_received\<close>, exactly when
  its length is at least 42 + 48 + 2 = 92; a shorter frame, so one of 91 bytes, leaves
  the cycle as it was.
\<close>

theorem mcu_minimum_length:
  assumes "len \<noteq> HEALTH_PKT_SIZE_WITH_HEADER" "len \<noteq> HEALTH_PKT_SIZE_8_PORTS"
    "len \<noteq> HEALTH_PKT_SIZE_3_PORTS"
  shows "HEALTH_UDP_PAYLOAD_OFFSET + MCU_OFF_FO_TRANS_TEMP + 2 = 92
    \<and> (92 \<le> len \<longrightarrow>
          health_parse_response packet len cycle =
            cycle\<lparr> mcu := (parse_mcu_data packet HEALTH_UDP_PAYLOAD_OFFSET (mcu cycle))
                             \<lparr> health_mcu_info.valid := True \<rparr>,
                   total_responses_received := total_responses_received cycle + 1 \<rparr>)
    \<and> (len < 92 \<longrightarrow> health_parse_response packet len cycle = cycle)
    \<and> (health_mcu_info.valid (mcu (health_parse_response packet len cycle)) \<and>
         total_responses_received (health_parse_response packet len cycle) =
           total_responses_received cycle + 1
         \<longleftrightarrow> 92 \<le> len)"
  using assms
  by (auto simp: health_parse_response_def Let_def HEALTH_UDP_PAYLOAD_OFFSET_def
      HEALTH_ETH_HEADER_SIZE_def HEALTH_IP_HEADER_SIZE_def HEALTH_UDP_HEADER_SIZE_def
      MCU_OFF_FO_TRANS_TEMP_def)


theorem mcu_minimum_length_witness:
  "92 \<noteq> HEALTH_PKT_SIZE_WITH_HEADER \<and> 92 \<noteq> HEALTH_PKT_SIZE_8_PORTS
   \<and> 92 \<noteq> HEALTH_PKT_SIZE_3_PORTS
   \<and> 91 \<noteq> HEALTH_PKT_SIZE_WITH_HEADER \<and> 91 \<noteq> HEALTH_PKT_SIZE_8_PORTS
   \<and> 91 \<noteq> HEALTH_PKT_SIZE_3_PORTS
   \<and> is_health_response ex_mcu_packet 92 \<and> is_health_response ex_mcu_packet 91
   \<and> health_mcu_info.valid (mcu (health_parse_response ex_mcu_packet 92 zero_cycle))
   \<and> fo_trans_temp (mcu (health_parse_response ex_mcu_packet 92 zero_cycle)) = 3000
   \<and> total_responses_received (health_parse_response ex_mcu_packet 92 zero_cycle) = 1
   \<and> health_parse_response ex_mcu_packet 91 zero_cycle = zero_cycle"
proof -
  have a: "92 \<noteq> HEALTH_PKT_SIZE_WITH_HEADER" "92 \<noteq> HEALTH_PKT_SIZE_8_PORTS"
    "92 \<noteq> HEALTH_PKT_SIZE_3_PORTS"
    and b: "91 \<noteq> HEALTH_PKT_SIZE_WITH_HEADER" "91 \<noteq> HEALTH_PKT_SIZE_8_PORTS"
    "91 \<noteq> HEALTH_PKT_SIZE_3_PORTS"
    by (simp_all add: health_consts)
  have acc: "is_health_response ex_mcu_packet 92" "is_health_response ex_mcu_packet 91"
    by (simp_all add: is_health_response_def ex_mcu_packet_def)
  have z: "total_responses_received zero_cycle = 0"
    by (simp add: zero_cycle_def)
  have t: "fo_trans_temp (parse_mcu_data ex_mcu_packet HEALTH_UDP_PAYLOAD_OFFSET m) = 3000" for m
    using parse_2byte_be_ex
    by (simp add: parse_mcu_data_def health_consts)
  show ?thesis
    using a b acc
      mcu_minimum_length [OF a, of ex_mcu_packet zero_cycle]
      mcu_minimum_length [OF b, of ex_mcu_packet zero_cycle]
    by (simp add: z t)
qed

end
